theory Spec2Isabelle
  imports Complex_Main "HOL-Library.Word" "HOL-Library.Sublist"
begin

section \<open>Strings of the runtime\<close>

text \<open>
  A JavaScript string is a sequence of 16-bit code units; \<open>length\<close>, \<open>substring\<close>,
  \<open>includes\<close> and a regular expression without the \<open>u\<close> flag all work on code units.
  Literals of the source that are plain ASCII are written \<open>ascii ''...''\<close>; the others are
  given as code-unit lists.
\<close>

type_synonym jsstring = "16 word list"

definition ascii :: "string \<Rightarrow> jsstring" where
  "ascii s = map (\<lambda>c. of_char c) s"

definition nl :: "16 word" where
  "nl = 0x0A"

text \<open>The class \<open>\s\<close> of a regular expression, which is also what \<open>trim\<close> strips.\<close>

definition is_ws :: "16 word \<Rightarrow> bool" where
  "is_ws c = (c \<in> set [0x09, 0x0A, 0x0B, 0x0C, 0x0D, 0x20, 0xA0, 0x1680, 0x2028, 0x2029,
                          0x202F, 0x205F, 0x3000, 0xFEFF]
              \<or> (0x2000 \<le> c \<and> c \<le> 0x200A))"

definition trim :: "jsstring \<Rightarrow> jsstring" where
  "trim s = rev (dropWhile is_ws (rev (dropWhile is_ws s)))"

text \<open>
  \<open>toLowerCase\<close> is the runtime's. The model lowers the capitals of Basic Latin and leaves
  every other code unit as it is, which is what the built-in does on any string whose
  cased letters are all in Basic Latin.
\<close>

definition lowerUnit :: "16 word \<Rightarrow> 16 word" where
  "lowerUnit c = (if 0x41 \<le> c \<and> c \<le> 0x5A then c + 0x20 else c)"

definition toLowerCase :: "jsstring \<Rightarrow> jsstring" where
  "toLowerCase s = map lowerUnit s"

text \<open>\<open>s.includes(t)\<close>: \<open>t\<close> occurs in \<open>s\<close> as a contiguous run.\<close>

fun str_includes :: "jsstring \<Rightarrow> jsstring \<Rightarrow> bool" where
  "str_includes [] t = (t = [])"
| "str_includes (c # cs) t = (prefix t (c # cs) \<or> str_includes cs t)"

definition startsWith :: "jsstring \<Rightarrow> jsstring \<Rightarrow> bool" where
  "startsWith s t = prefix t s"

definition endsWith :: "jsstring \<Rightarrow> jsstring \<Rightarrow> bool" where
  "endsWith s t = prefix (rev t) (rev s)"

text \<open>
  \<open>s.split(/\s+/)\<close>: the pieces between maximal runs of whitespace. A string that starts
  (ends) with whitespace yields an empty first (last) piece, and the empty string yields
  one empty piece. The first argument is the piece being read.
\<close>

function split_ws_from :: "jsstring \<Rightarrow> jsstring \<Rightarrow> jsstring list" where
  "split_ws_from tok [] = [tok]"
| "split_ws_from tok (c # cs) =
     (if is_ws c then tok # split_ws_from [] (dropWhile is_ws cs)
      else split_ws_from (tok @ [c]) cs)"
  by pat_completeness auto
termination
  by (relation "measure (\<lambda>(tok, s). length s)")
     (auto simp: length_dropWhile_le less_Suc_eq_le)

definition split_ws :: "jsstring \<Rightarrow> jsstring list" where
  "split_ws s = split_ws_from [] s"

text \<open>\<open>s.split(sep)\<close> for a separator of one code unit.\<close>

fun split_chr_from :: "16 word \<Rightarrow> jsstring \<Rightarrow> jsstring \<Rightarrow> jsstring list" where
  "split_chr_from sep tok [] = [tok]"
| "split_chr_from sep tok (c # cs) =
     (if c = sep then tok # split_chr_from sep [] cs
      else split_chr_from sep (tok @ [c]) cs)"

definition split_chr :: "16 word \<Rightarrow> jsstring \<Rightarrow> jsstring list" where
  "split_chr sep s = split_chr_from sep [] s"

text \<open>\<open>xs.join(sep)\<close>.\<close>

fun join :: "jsstring \<Rightarrow> jsstring list \<Rightarrow> jsstring" where
  "join sep [] = []"
| "join sep [x] = x"
| "join sep (x # y # ys) = x @ sep @ join sep (y # ys)"

section \<open>Metadata parser\<close>

text \<open>
  \<open>parseInsightMetadata\<close> returns an object whose own properties are all strings; a
  property that was never set reads as \<open>undefined\<close>, here \<open>None\<close>.
\<close>

type_synonym metadata = "jsstring \<rightharpoonup> jsstring"

text \<open>
  \<open>content.match(/^---\n([\s\S]*?)\n---/)\<close>: the text has to begin with the opening
  line; the group is the shortest text after it that is followed by a newline and three
  dashes.
\<close>

fun lazyUntil :: "jsstring \<Rightarrow> jsstring \<Rightarrow> jsstring \<Rightarrow> jsstring option" where
  "lazyUntil close acc [] = (if close = [] then Some acc else None)"
| "lazyUntil close acc (c # cs) =
     (if prefix close (c # cs) then Some acc else lazyUntil close (acc @ [c]) cs)"

definition frontMatterMatch :: "jsstring \<Rightarrow> jsstring option" where
  "frontMatterMatch content =
     (if startsWith content (ascii ''---'' @ [nl])
      then lazyUntil (nl # ascii ''---'') [] (drop 4 content)
      else None)"

text \<open>
  \<open>metadata[key] = value\<close> on a plain object: the key \<open>__proto__\<close> reaches the
  prototype setter, which ignores a string, so no property is created.
\<close>

definition setProp :: "metadata \<Rightarrow> jsstring \<Rightarrow> jsstring \<Rightarrow> metadata" where
  "setProp md k v = (if k = ascii ''__proto__'' then md else md(k \<mapsto> v))"

definition parseLine :: "metadata \<Rightarrow> jsstring \<Rightarrow> metadata" where
  "parseLine md line =
     (case split_chr 0x3A line of
        [] \<Rightarrow> md
      | key # valueParts \<Rightarrow>
          if key \<noteq> [] \<and> length valueParts > 0
          then setProp md (trim key) (trim (join (ascii '':'') valueParts))
          else md)"

definition defaultMetadata :: metadata where
  "defaultMetadata =
     [ascii ''category'' \<mapsto> ascii ''technical'',
      ascii ''created_date'' \<mapsto> [],
      ascii ''title'' \<mapsto> []]"

definition parseInsightMetadata :: "jsstring \<Rightarrow> metadata" where
  "parseInsightMetadata content =
     (case frontMatterMatch content of
        None \<Rightarrow> defaultMetadata
      | Some frontMatter \<Rightarrow> foldl parseLine Map.empty (split_chr nl frontMatter))"

section \<open>Relevance scorer\<close>

text \<open>
  Scores are IEEE doubles in the source; the model computes with exact rationals. The
  word signal of \<open>calculateRelevance\<close> (its second block) is a definition of its own so
  that it can be named.
\<close>

definition wordMatches :: "jsstring list \<Rightarrow> jsstring \<Rightarrow> bool" where
  "wordMatches contentWords word =
     list_ex (\<lambda>contentWord. str_includes contentWord word \<or> str_includes word contentWord)
       contentWords"

definition wordScore :: "jsstring \<Rightarrow> jsstring \<Rightarrow> rat" where
  "wordScore queryLower contentLower =
     (let queryWords = split_ws queryLower;
          contentWords = split_ws contentLower;
          matchingWords = filter (wordMatches contentWords) queryWords
      in (of_nat (length matchingWords) / of_nat (length queryWords)) * (4 / 10))"

definition titleScore :: "jsstring \<Rightarrow> metadata \<Rightarrow> rat" where
  "titleScore queryLower md =
     (case md (ascii ''title'') of
        None \<Rightarrow> 0
      | Some title \<Rightarrow> if str_includes (toLowerCase title) queryLower then 4 / 10 else 0)"

definition categoryScore :: "jsstring \<Rightarrow> metadata \<Rightarrow> rat" where
  "categoryScore queryLower md =
     (case md (ascii ''category'') of
        None \<Rightarrow> 0
      | Some category \<Rightarrow>
          if category \<noteq> [] \<and> str_includes queryLower category then 1 / 10 else 0)"

text \<open>
  A parsed header holds \<open>tags\<close> as one string, so \<open>Array.isArray\<close> is false and the
  sequence of tags is the one-element array of that string.
\<close>

definition tagScore :: "jsstring \<Rightarrow> metadata \<Rightarrow> rat" where
  "tagScore queryLower md =
     (case md (ascii ''tags'') of
        None \<Rightarrow> 0
      | Some t \<Rightarrow>
          if t = [] then 0
          else
            (let tags = [t];
                 tagMatches = filter (\<lambda>tag. str_includes queryLower (toLowerCase tag)
                                            \<or> str_includes (toLowerCase tag) queryLower) tags
             in (of_nat (length tagMatches) / of_nat (max (length tags) 1)) * (1 / 10)))"

definition calculateRelevance :: "jsstring \<Rightarrow> jsstring \<Rightarrow> metadata \<Rightarrow> rat" where
  "calculateRelevance query content md =
     (let queryLower = toLowerCase query;
          contentLower = toLowerCase content;
          score = 0 + titleScore queryLower md;
          score = score + wordScore queryLower contentLower;
          score = score + categoryScore queryLower md;
          score = score + tagScore queryLower md
      in min score 1)"

section \<open>Command matcher\<close>

text \<open>
  A Command of the source is \<open>{command, description, lastUpdated, relatedDocs}\<close>; the last
  two fields carry a prefix here because a search result has fields of the same names.
\<close>

record Command =
  command :: jsstring
  description :: jsstring
  cmd_lastUpdated :: jsstring
  cmd_relatedDocs :: "jsstring list"

text \<open>With the flag \<open>m\<close>, \<open>^\<close> matches at the start of the text and after a line terminator.\<close>

definition is_line_terminator :: "16 word \<Rightarrow> bool" where
  "is_line_terminator c = (c \<in> set [0x0A, 0x0D, 0x2028, 0x2029])"

text \<open>
  \<open>content.split(/^## /m)\<close>. The flag says whether the position is the start of a line;
  the second argument is the piece being read.
\<close>

function splitSections_from :: "bool \<Rightarrow> jsstring \<Rightarrow> jsstring \<Rightarrow> jsstring list" where
  "splitSections_from bol cur [] = [cur]"
| "splitSections_from bol cur (c # cs) =
     (if bol \<and> prefix (ascii ''## '') (c # cs)
      then cur # splitSections_from False [] (drop 2 cs)
      else splitSections_from (is_line_terminator c) (cur @ [c]) cs)"
  by pat_completeness auto
termination
  by (relation "measure (\<lambda>(bol, cur, s). length s)") auto

definition sections :: "jsstring \<Rightarrow> jsstring list" where
  "sections content = filter (\<lambda>s. trim s \<noteq> []) (splitSections_from True [] content)"

text \<open>The bilingual labels of the three fields.\<close>

definition descriptionLabels :: "jsstring list" where
  "descriptionLabels =
     [ascii ''**'' @ [0x63CF, 0x8FF0] @ ascii ''**:'', ascii ''**Description**:'']"

definition relatedDocsLabels :: "jsstring list" where
  "relatedDocsLabels =
     [ascii ''**'' @ [0x76F8, 0x5173, 0x6587, 0x6863] @ ascii ''**:'',
      ascii ''**Related Docs**:'']"

definition lastUpdatedLabels :: "jsstring list" where
  "lastUpdatedLabels =
     [ascii ''**'' @ [0x66F4, 0x65B0, 0x65F6, 0x95F4] @ ascii ''**:'',
      ascii ''**Last Updated**:'']"

text \<open>
  \<open>line.replace(/\*\*(A|B)\*\*:\s*/, '')\<close>: the first place where one of the two labels
  starts is cut out together with the whitespace that follows it.
\<close>

fun replaceLabel :: "jsstring list \<Rightarrow> jsstring \<Rightarrow> jsstring" where
  "replaceLabel labels [] = []"
| "replaceLabel labels (c # cs) =
     (case find (\<lambda>l. prefix l (c # cs)) labels of
        Some l \<Rightarrow> dropWhile is_ws (drop (length l) (c # cs))
      | None \<Rightarrow> c # replaceLabel labels cs)"

definition startsWithAny :: "jsstring \<Rightarrow> jsstring list \<Rightarrow> bool" where
  "startsWithAny line labels = list_ex (\<lambda>l. startsWith line l) labels"

text \<open>The body of the loop over the lines of a section, after the first one.\<close>

definition sectionLine :: "Command \<Rightarrow> jsstring \<Rightarrow> Command" where
  "sectionLine c rawLine =
     (let line = trim rawLine in
      if startsWithAny line descriptionLabels
      then c\<lparr>description := replaceLabel descriptionLabels line\<rparr>
      else if startsWithAny line relatedDocsLabels
      then c\<lparr>cmd_relatedDocs :=
               filter (\<lambda>d. d \<noteq> [])
                 (map trim (split_chr 0x2C (replaceLabel relatedDocsLabels line)))\<rparr>
      else if startsWithAny line lastUpdatedLabels
      then c\<lparr>cmd_lastUpdated := replaceLabel lastUpdatedLabels line\<rparr>
      else if \<not> startsWith line (ascii ''**'') \<and> line \<noteq> [] \<and> description c = []
      then c\<lparr>description := line\<rparr>
      else c)"

definition parseSection :: "jsstring \<Rightarrow> Command" where
  "parseSection section =
     (case split_chr nl section of
        [] \<Rightarrow> \<lparr>command = [], description = [], cmd_lastUpdated = [], cmd_relatedDocs = []\<rparr>
      | first # lines \<Rightarrow>
          foldl sectionLine
            \<lparr>command = trim first, description = [], cmd_lastUpdated = [],
             cmd_relatedDocs = []\<rparr>
            lines)"

definition pushCommand :: "Command list \<Rightarrow> jsstring \<Rightarrow> Command list" where
  "pushCommand commands section =
     (let c = parseSection section in
      if command c \<noteq> [] \<and> description c \<noteq> [] then commands @ [c] else commands)"

definition parseUserCommands :: "jsstring \<Rightarrow> Command list" where
  "parseUserCommands content = foldl pushCommand [] (sections content)"

text \<open>The filter of \<open>getUserCommands\<close>: whether a command is relevant to the query.\<close>

definition commandMatches :: "jsstring \<Rightarrow> Command \<Rightarrow> bool" where
  "commandMatches query cmd =
     (let queryLower = toLowerCase query;
          commandLower = toLowerCase (command cmd);
          descLower = toLowerCase (description cmd);
          queryWords = split_ws queryLower
      in list_ex (\<lambda>word. str_includes commandLower word \<or> str_includes descLower word
                         \<or> (length word > 2
                             \<and> (str_includes commandLower word \<or> str_includes descLower word)))
           queryWords)"

section \<open>Storage abstraction and the facade\<close>

text \<open>
  A thrown value is an \<open>Error\<close> with its message or some other value; an operation that
  can throw returns \<open>exn + 'a\<close>, with \<open>Inl\<close> for the exception. \<open>errorMessage\<close> is the
  expression \<open>error instanceof Error ? error.message : 'Unknown error'\<close>.
\<close>

datatype exn = Error jsstring | Thrown

definition errorMessage :: "exn \<Rightarrow> jsstring" where
  "errorMessage e = (case e of Error m \<Rightarrow> m | Thrown \<Rightarrow> ascii ''Unknown error'')"

definition await :: "exn + 'a \<Rightarrow> ('a \<Rightarrow> exn + 'b) \<Rightarrow> exn + 'b" where
  "await r k = (case r of Inl e \<Rightarrow> Inl e | Inr v \<Rightarrow> k v)"

definition tryCatch :: "exn + 'a \<Rightarrow> (exn \<Rightarrow> exn + 'a) \<Rightarrow> exn + 'a" where
  "tryCatch body handler = (case body of Inl e \<Rightarrow> handler e | Inr v \<Rightarrow> Inr v)"

text \<open>
  \<open>IFileManager\<close> over a storage state \<open>'fs\<close>: the three reading operations leave the
  state as it is, the two writing ones return the new state. Any of them may throw.
\<close>

record 'fs IFileManager =
  exists :: "'fs \<Rightarrow> jsstring \<Rightarrow> exn + bool"
  readFile :: "'fs \<Rightarrow> jsstring \<Rightarrow> exn + jsstring"
  writeFile :: "'fs \<Rightarrow> jsstring \<Rightarrow> jsstring \<Rightarrow> exn + 'fs"
  listFiles :: "'fs \<Rightarrow> jsstring \<Rightarrow> exn + jsstring list"
  createDirectory :: "'fs \<Rightarrow> jsstring \<Rightarrow> exn + 'fs"

text \<open>
  \<open>path.join\<close> on segments that are already normal (no empty segment, no \<open>.\<close> or \<open>..\<close>,
  no separator inside a name), with the POSIX separator.
\<close>

definition pathJoin :: "jsstring list \<Rightarrow> jsstring" where
  "pathJoin segments = join (ascii ''/'') segments"

text \<open>
  \<open>path.basename(p, '.md')\<close>: the last segment, without the extension unless the
  extension is the whole segment.
\<close>

definition basenameMd :: "jsstring \<Rightarrow> jsstring" where
  "basenameMd p =
     (let base = last (split_chr 0x2F p) in
      if endsWith base (ascii ''.md'') \<and> length base > 3
      then take (length base - 3) base else base)"

record 'fs FactsManager =
  fileManager :: "'fs IFileManager"
  localDocsPath :: jsstring
  userCommandPath :: jsstring

definition newFactsManager :: "'fs IFileManager \<Rightarrow> jsstring \<Rightarrow> 'fs FactsManager" where
  "newFactsManager fm projectPath =
     (let docs = pathJoin [projectPath, ascii ''.bkproj'', ascii ''facts''] in
      \<lparr>fileManager = fm, localDocsPath = docs,
       userCommandPath = pathJoin [docs, ascii ''USER_COMMAND.md'']\<rparr>)"

text \<open>What the code reads from the process: the working directory and the clock.\<close>

record Ambient =
  cwd :: jsstring
  now :: jsstring

record SearchOptions =
  opt_maxResults :: "int option"
  opt_categories :: "jsstring list option"
  opt_minRelevance :: "rat option"

definition noOptions :: SearchOptions where
  "noOptions = \<lparr>opt_maxResults = None, opt_categories = None, opt_minRelevance = None\<rparr>"

record FactDocument =
  path :: jsstring
  title :: jsstring
  category :: jsstring
  relevanceScore :: rat
  summary :: jsstring
  lastUpdated :: jsstring
  relatedDocs :: "jsstring list option"

record ProjectContext =
  currentPath :: jsstring
  hasLocalDocs :: bool
  factCount :: nat
  categories :: "jsstring option list"
  lastActivity :: jsstring

definition mdFilesIn :: "jsstring \<Rightarrow> jsstring list \<Rightarrow> jsstring list" where
  "mdFilesIn dir names =
     map (\<lambda>file. pathJoin [dir, file]) (filter (\<lambda>file. endsWith file (ascii ''.md'')) names)"

text \<open>
  \<open>findInsightFiles\<close> catches whatever its body throws and returns the files it has
  collected by then.
\<close>

definition listIfExists :: "'fs IFileManager \<Rightarrow> 'fs \<Rightarrow> jsstring \<Rightarrow> exn + jsstring list" where
  "listIfExists fm fs dir =
     await (exists fm fs dir) (\<lambda>ex. if ex then listFiles fm fs dir else Inr [])"

definition findInsightFiles :: "'fs FactsManager \<Rightarrow> 'fs \<Rightarrow> jsstring list" where
  "findInsightFiles M fs =
     (let solutionsPath = pathJoin [localDocsPath M, ascii ''solutions''];
          docsPath = pathJoin [localDocsPath M, ascii ''docs'']
      in case listIfExists (fileManager M) fs solutionsPath of
           Inl e \<Rightarrow> []
         | Inr solutionFiles \<Rightarrow>
             (let files = mdFilesIn solutionsPath solutionFiles in
              case listIfExists (fileManager M) fs docsPath of
                Inl e \<Rightarrow> files
              | Inr docFiles \<Rightarrow> files @ mdFilesIn docsPath docFiles))"

text \<open>
  \<open>content.replace(/^---[\s\S]*?---\n/, '')\<close> and the first line of more than 50 code
  units that is not a heading.
\<close>

definition withoutFrontMatter :: "jsstring \<Rightarrow> jsstring" where
  "withoutFrontMatter content =
     (if startsWith content (ascii ''---'')
      then (case lazyUntil (ascii ''---'' @ [nl]) [] (drop 3 content) of
              None \<Rightarrow> content
            | Some skipped \<Rightarrow> drop (3 + length skipped + 4) content)
      else content)"

definition extractSummary :: "jsstring \<Rightarrow> jsstring" where
  "extractSummary content =
     (case find (\<lambda>trimmed. length trimmed > 50 \<and> \<not> startsWith trimmed (ascii ''#''))
             (map trim (split_chr nl (withoutFrontMatter content))) of
        Some trimmed \<Rightarrow> take 200 trimmed @ (if length trimmed > 200 then ascii ''...'' else [])
      | None \<Rightarrow> ascii ''No summary available'')"

text \<open>
  The body of the loop of \<open>searchFactsInternal\<close> over the files: a file that cannot be
  read is skipped.
\<close>

definition orElse :: "jsstring \<Rightarrow> jsstring \<Rightarrow> jsstring" where
  "orElse s d = (if s = [] then d else s)"

definition processFile ::
  "'fs FactsManager \<Rightarrow> 'fs \<Rightarrow> jsstring \<Rightarrow> jsstring list \<Rightarrow> rat \<Rightarrow>
     FactDocument list \<Rightarrow> jsstring \<Rightarrow> FactDocument list" where
  "processFile M fs query cats minRelevance factDocuments filePath =
     (case readFile (fileManager M) fs filePath of
        Inl e \<Rightarrow> factDocuments
      | Inr content \<Rightarrow>
          (let metadata = parseInsightMetadata content in
           case metadata (ascii ''category'') of
             None \<Rightarrow> factDocuments
           | Some cat \<Rightarrow>
               if cat \<in> set cats
               then (let score = calculateRelevance query content metadata in
                     if score \<ge> minRelevance
                     then factDocuments @
                       [\<lparr>path = filePath,
                         title = orElse (case metadata (ascii ''title'') of
                                           None \<Rightarrow> [] | Some t \<Rightarrow> t)
                                   (basenameMd filePath),
                         category = cat,
                         relevanceScore = score,
                         summary = extractSummary content,
                         lastUpdated = (case metadata (ascii ''created_date'') of
                                          None \<Rightarrow> [] | Some d \<Rightarrow> d),
                         relatedDocs = None\<rparr>]
                     else factDocuments)
               else factDocuments))"

text \<open>
  \<open>xs.slice(0, n)\<close> for an integer \<open>n\<close>: a negative \<open>n\<close> counts from the end. The sort
  of the source is stable and descending in the score.
\<close>

definition slice0 :: "'a list \<Rightarrow> int \<Rightarrow> 'a list" where
  "slice0 xs n = (if n < 0 then take (nat (int (length xs) + n)) xs else take (nat n) xs)"

definition defaultCategories :: "jsstring list" where
  "defaultCategories =
     [ascii ''technical'', ascii ''process'', ascii ''decision'', ascii ''pattern'']"

definition searchFactsInternal ::
  "'fs FactsManager \<Rightarrow> 'fs \<Rightarrow> jsstring \<Rightarrow> SearchOptions \<Rightarrow> exn + FactDocument list" where
  "searchFactsInternal M fs query options =
     (let maxResults = (case opt_maxResults options of None \<Rightarrow> 10 | Some n \<Rightarrow> n);
          cats = (case opt_categories options of None \<Rightarrow> defaultCategories | Some cs \<Rightarrow> cs);
          minRelevance = (case opt_minRelevance options of None \<Rightarrow> 5 / 10 | Some r \<Rightarrow> r)
      in tryCatch
           (await (exists (fileManager M) fs (localDocsPath M))
              (\<lambda>ex. if \<not> ex then Inr []
                 else (let files = findInsightFiles M fs;
                           factDocuments =
                             foldl (processFile M fs query cats minRelevance) [] files
                       in Inr (slice0 (sort_key (\<lambda>d. - relevanceScore d) factDocuments)
                                 maxResults))))
           (\<lambda>error. Inr []))"

definition getUserCommands :: "'fs FactsManager \<Rightarrow> 'fs \<Rightarrow> jsstring \<Rightarrow> exn + Command list" where
  "getUserCommands M fs query =
     tryCatch
       (await (exists (fileManager M) fs (userCommandPath M))
          (\<lambda>ex. if \<not> ex then Inr []
             else await (readFile (fileManager M) fs (userCommandPath M))
                    (\<lambda>content. Inr (filter (commandMatches query) (parseUserCommands content)))))
       (\<lambda>error. Inr [])"

text \<open>The title prefix of a command result is the four-character label and \<open>: \<close>.\<close>

definition commandFact :: "'fs FactsManager \<Rightarrow> Command \<Rightarrow> FactDocument" where
  "commandFact M cmd =
     \<lparr>path = userCommandPath M,
      title = [0x9879, 0x76EE, 0x6307, 0x4EE4] @ ascii '': '' @ command cmd,
      category = ascii ''command'',
      relevanceScore = 1,
      summary = description cmd,
      lastUpdated = orElse (cmd_lastUpdated cmd) [],
      relatedDocs = Some (cmd_relatedDocs cmd)\<rparr>"

definition searchFacts ::
  "'fs FactsManager \<Rightarrow> 'fs \<Rightarrow> jsstring \<Rightarrow> SearchOptions \<Rightarrow> exn + FactDocument list" where
  "searchFacts M fs query options =
     await (getUserCommands M fs query)
       (\<lambda>userCommands.
          if length userCommands > 0
          then (let commandFacts = map (commandFact M) userCommands in
                await (searchFactsInternal M fs query options)
                  (\<lambda>normalFacts. Inr (commandFacts @ normalFacts)))
          else searchFactsInternal M fs query options)"

text \<open>\<open>a < b\<close> on strings compares code units from the left.\<close>

fun str_less :: "jsstring \<Rightarrow> jsstring \<Rightarrow> bool" where
  "str_less [] [] = False"
| "str_less [] (y # ys) = True"
| "str_less (x # xs) [] = False"
| "str_less (x # xs) (y # ys) = (x < y \<or> (x = y \<and> str_less xs ys))"

definition epoch :: jsstring where
  "epoch = ascii ''1970-01-01T00:00:00.000Z''"

definition setAdd :: "'a list \<Rightarrow> 'a \<Rightarrow> 'a list" where
  "setAdd xs x = (if x \<in> set xs then xs else xs @ [x])"

text \<open>
  The body of the loop of \<open>getProjectContext\<close>; the state is the set of categories, in
  insertion order, and the latest date. A header without \<open>category\<close> adds \<open>undefined\<close>.
\<close>

definition contextFile ::
  "'fs FactsManager \<Rightarrow> 'fs \<Rightarrow> jsstring option list \<times> jsstring \<Rightarrow> jsstring \<Rightarrow>
     jsstring option list \<times> jsstring" where
  "contextFile M fs st filePath =
     (case readFile (fileManager M) fs filePath of
        Inl e \<Rightarrow> st
      | Inr content \<Rightarrow>
          (let metadata = parseInsightMetadata content;
               cats = setAdd (fst st) (metadata (ascii ''category''))
           in case metadata (ascii ''created_date'') of
                None \<Rightarrow> (cats, snd st)
              | Some d \<Rightarrow> if d \<noteq> [] \<and> str_less (snd st) d then (cats, d) else (cats, snd st)))"

definition getProjectContext ::
  "Ambient \<Rightarrow> 'fs FactsManager \<Rightarrow> 'fs \<Rightarrow> exn + ProjectContext" where
  "getProjectContext A M fs =
     tryCatch
       (await (exists (fileManager M) fs (localDocsPath M))
          (\<lambda>hasDocs.
             if \<not> hasDocs
             then Inr \<lparr>currentPath = cwd A, hasLocalDocs = False, factCount = 0,
                       categories = [], lastActivity = now A\<rparr>
             else (let files = findInsightFiles M fs;
                       st = foldl (contextFile M fs) ([], epoch) files
                   in Inr \<lparr>currentPath = cwd A, hasLocalDocs = True,
                            factCount = length files, categories = fst st,
                            lastActivity = (if snd st = epoch then now A else snd st)\<rparr>)))
       (\<lambda>error. Inl (Error (ascii ''Failed to get project context: '' @ errorMessage error)))"

definition initializeLocalDocs :: "'fs FactsManager \<Rightarrow> 'fs \<Rightarrow> exn + 'fs" where
  "initializeLocalDocs M fs =
     tryCatch
       (await (createDirectory (fileManager M) fs (localDocsPath M))
          (\<lambda>fs1. await (createDirectory (fileManager M) fs1
                           (pathJoin [localDocsPath M, ascii ''solutions'']))
             (\<lambda>fs2. createDirectory (fileManager M) fs2
                        (pathJoin [localDocsPath M, ascii ''docs'']))))
       (\<lambda>error. Inl (Error (ascii ''Failed to initialize local docs: '' @ errorMessage error)))"

section \<open>Insight writer\<close>

datatype Category = Technical | Process | Decision | Pattern

datatype Confidence = High | Medium | Low

fun categoryName :: "Category \<Rightarrow> jsstring" where
  "categoryName Technical = ascii ''technical''"
| "categoryName Process = ascii ''process''"
| "categoryName Decision = ascii ''decision''"
| "categoryName Pattern = ascii ''pattern''"

fun confidenceName :: "Confidence \<Rightarrow> jsstring" where
  "confidenceName High = ascii ''high''"
| "confidenceName Medium = ascii ''medium''"
| "confidenceName Low = ascii ''low''"

text \<open>
  \<open>InsightRecord\<close>; its field \<open>category\<close> is \<open>insightCategory\<close> here, the name
  \<open>category\<close> being a field of a search result.
\<close>

record InsightRecord =
  task :: jsstring
  solution :: jsstring
  reasoning :: jsstring
  evidence :: "jsstring list"
  insightCategory :: Category
  confidence :: Confidence

text \<open>
  The class of the code units that stay in a file name: the letters and digits of Basic
  Latin and the range U+4E00 to U+9FA5.
\<close>

definition keptInFilename :: "16 word \<Rightarrow> bool" where
  "keptInFilename c =
     ((0x61 \<le> c \<and> c \<le> 0x7A) \<or> (0x41 \<le> c \<and> c \<le> 0x5A) \<or> (0x30 \<le> c \<and> c \<le> 0x39)
      \<or> (0x4E00 \<le> c \<and> c \<le> 0x9FA5))"

definition generateInsightFilename :: "InsightRecord \<Rightarrow> jsstring" where
  "generateInsightFilename insight =
     (let taskPart = take 30 (filter keptInFilename (task insight));
          solutionPart = take 30 (filter keptInFilename (solution insight))
      in taskPart @ ascii ''_'' @ solutionPart @ ascii ''.md'')"

definition getConfidenceDescription :: "jsstring \<Rightarrow> jsstring" where
  "getConfidenceDescription c =
     (if c = ascii ''high''
      then [0x7ECF, 0x8FC7, 0x5145, 0x5206, 0x9A8C, 0x8BC1, 0x7684, 0x53EF, 0x9760, 0x65B9, 0x6848]
      else if c = ascii ''medium''
      then [0x57FA, 0x672C, 0x53EF, 0x884C, 0x4F46, 0x9700, 0x8981, 0x6839, 0x636E, 0x60C5,
            0x51B5, 0x8C03, 0x6574, 0x7684, 0x65B9, 0x6848]
      else if c = ascii ''low''
      then [0x5B9E, 0x9A8C, 0x6027, 0x65B9, 0x6848, 0xFF0C, 0x9700, 0x8981, 0x8FDB, 0x4E00,
            0x6B65, 0x9A8C, 0x8BC1]
      else [0x672A, 0x8BC4, 0x4F30])"

definition evidenceLines :: "jsstring list \<Rightarrow> jsstring" where
  "evidenceLines ev =
     orElse (join [nl] (map (\<lambda>evidence. ascii ''- '' @ evidence) ev))
       (ascii ''- '' @ [0x6682, 0x65E0, 0x989D, 0x5916, 0x8BC1, 0x636E])"

text \<open>
  The template of \<open>formatInsightContent\<close>, one element per line. Both readings of the
  clock are \<open>now A\<close>: the clock is taken not to advance during one operation.
\<close>

definition formatInsightContent :: "Ambient \<Rightarrow> InsightRecord \<Rightarrow> jsstring" where
  "formatInsightContent A insight =
     (let timestamp = hd (split_chr 0x54 (now A)) in
      concat
        [ascii ''---'' @ [nl],
         ascii ''category: '' @ categoryName (insightCategory insight) @ [nl],
         ascii ''confidence: '' @ confidenceName (confidence insight) @ [nl],
         ascii ''created_date: '' @ timestamp @ [nl],
         ascii ''tags: ['' @ categoryName (insightCategory insight) @ ascii '']'' @ [nl],
         ascii ''related_files: []'' @ [nl],
         ascii ''---'' @ [nl],
         [nl],
         ascii ''# '' @ task insight @ ascii '' - ''
           @ [0x89E3, 0x51B3, 0x65B9, 0x6848, 0x6D1E, 0x5BDF] @ [nl],
         [nl],
         ascii ''## '' @ [0xD83C, 0xDFAF] @ ascii '' '' @ [0x95EE, 0x9898, 0x63CF, 0x8FF0] @ [nl],
         task insight @ [nl],
         [nl],
         ascii ''## '' @ [0xD83D, 0xDCA1] @ ascii '' '' @ [0x89E3, 0x51B3, 0x65B9, 0x6848] @ [nl],
         solution insight @ [nl],
         [nl],
         ascii ''## '' @ [0xD83E, 0xDD14] @ ascii '' '' @ [0x89E3, 0x51B3, 0x601D, 0x8DEF]
           @ ascii '' (Reasoning)'' @ [nl],
         reasoning insight @ [nl],
         [nl],
         ascii ''## '' @ [0xD83D, 0xDCCB] @ ascii '' '' @ [0x652F, 0x6301, 0x8BC1, 0x636E] @ [nl],
         evidenceLines (evidence insight) @ [nl],
         [nl],
         ascii ''## '' @ [0xD83D, 0xDCCA] @ ascii '' '' @ [0x9A8C, 0x8BC1, 0x7ED3, 0x679C] @ [nl],
         ascii ''*'' @ [0x5F85, 0x8865, 0x5145, 0x5177, 0x4F53, 0x7684, 0x9A8C, 0x8BC1, 0x7ED3,
                        0x679C, 0x548C, 0x6548, 0x679C, 0x6307, 0x6807] @ ascii ''*'' @ [nl],
         [nl],
         ascii ''## '' @ [0x26A0, 0xFE0F] @ ascii '' '' @ [0x6CE8, 0x610F, 0x4E8B, 0x9879] @ [nl],
         ascii ''- **'' @ [0x7F6E, 0x4FE1, 0x5EA6] @ ascii ''**: ''
           @ confidenceName (confidence insight) @ [nl],
         ascii ''- **'' @ [0x9002, 0x7528, 0x573A, 0x666F] @ ascii ''**: ''
           @ [0x9700, 0x8981, 0x6839, 0x636E, 0x5177, 0x4F53, 0x60C5, 0x51B5, 0x8BC4, 0x4F30,
              0x9002, 0x7528, 0x6027] @ [nl],
         ascii ''- **'' @ [0x98CE, 0x9669, 0x70B9] @ ascii ''**: *''
           @ [0x5F85, 0x8865, 0x5145, 0x5B9E, 0x65BD, 0x8FC7, 0x7A0B, 0x4E2D, 0x9700, 0x8981,
              0x6CE8, 0x610F, 0x7684, 0x98CE, 0x9669] @ ascii ''*'' @ [nl],
         [nl],
         ascii ''## '' @ [0xD83D, 0xDD04] @ ascii '' '' @ [0x53EF, 0x590D, 0x7528, 0x6027] @ [nl],
         ascii ''**'' @ [0x7C7B, 0x4F3C, 0x95EE, 0x9898] @ ascii ''**: *''
           @ [0x8FD9, 0x4E2A, 0x65B9, 0x6848, 0x53EF, 0x4EE5, 0x5E94, 0x7528, 0x5230, 0x54EA,
              0x4E9B, 0x7C7B, 0x4F3C, 0x95EE, 0x9898] @ ascii ''*'' @ [nl],
         ascii ''**'' @ [0x5173, 0x952E, 0x6A21, 0x5F0F] @ ascii ''**: *''
           @ [0x53EF, 0x4EE5, 0x62BD, 0x53D6, 0x51FA, 0x7684, 0x901A, 0x7528, 0x6A21, 0x5F0F,
              0x6216, 0x539F, 0x5219] @ ascii ''*'' @ [nl],
         [nl],
         ascii ''---'' @ [nl],
         ascii ''*'' @ [0x8BB0, 0x5F55, 0x65F6, 0x95F4] @ ascii '': '' @ now A @ ascii ''*  '' @ [nl],
         ascii ''*'' @ [0x7F6E, 0x4FE1, 0x5EA6] @ ascii '': '' @ confidenceName (confidence insight)
           @ ascii '' - '' @ getConfidenceDescription (confidenceName (confidence insight))
           @ ascii ''*''])"

section \<open>Index builder\<close>

text \<open>
  An entry of \<open>getSolutionFiles\<close> and \<open>getDocFiles\<close> is \<open>{path, name, lastModified,
  summary}\<close>. Every entry carries the same reading of the clock, so the stable sort by
  \<open>lastModified\<close> leaves the order as it is.
\<close>

record FileEntry =
  fe_path :: jsstring
  fe_name :: jsstring
  fe_lastModified :: jsstring
  fe_summary :: jsstring

definition entryFile ::
  "Ambient \<Rightarrow> 'fs FactsManager \<Rightarrow> 'fs \<Rightarrow> jsstring \<Rightarrow> FileEntry list \<Rightarrow> jsstring \<Rightarrow>
     FileEntry list" where
  "entryFile A M fs dir files fileName =
     (if endsWith fileName (ascii ''.md'')
      then (let filePath = pathJoin [dir, fileName] in
            case readFile (fileManager M) fs filePath of
              Inl e \<Rightarrow> files
            | Inr content \<Rightarrow>
                files @ [\<lparr>fe_path = filePath, fe_name = fileName, fe_lastModified = now A,
                           fe_summary = extractSummary content\<rparr>])
      else files)"

definition entriesIn :: "Ambient \<Rightarrow> 'fs FactsManager \<Rightarrow> 'fs \<Rightarrow> jsstring \<Rightarrow> FileEntry list" where
  "entriesIn A M fs dir =
     (case listIfExists (fileManager M) fs dir of
        Inl e \<Rightarrow> []
      | Inr fileList \<Rightarrow> foldl (entryFile A M fs dir) [] fileList)"

definition getSolutionFiles :: "Ambient \<Rightarrow> 'fs FactsManager \<Rightarrow> 'fs \<Rightarrow> FileEntry list" where
  "getSolutionFiles A M fs = entriesIn A M fs (pathJoin [localDocsPath M, ascii ''solutions''])"

definition getDocFiles :: "Ambient \<Rightarrow> 'fs FactsManager \<Rightarrow> 'fs \<Rightarrow> FileEntry list" where
  "getDocFiles A M fs = entriesIn A M fs (pathJoin [localDocsPath M, ascii ''docs''])"

text \<open>
  \<open>updateKnowledge\<close> catches whatever its body throws. The text of the index
  (\<open>generateKnowledgeContent\<close>, a template over its three arguments and the clock) is the
  parameter \<open>gen\<close>: every statement below holds for any text.
\<close>

type_synonym indexText = "FileEntry list \<Rightarrow> FileEntry list \<Rightarrow> ProjectContext \<Rightarrow> jsstring"

definition updateKnowledge :: "indexText \<Rightarrow> Ambient \<Rightarrow> 'fs FactsManager \<Rightarrow> 'fs \<Rightarrow> 'fs" where
  "updateKnowledge gen A M fs =
     (case await (getProjectContext A M fs)
             (\<lambda>context.
                let knowledgePath = pathJoin [localDocsPath M, ascii ''KNOWLEDGE.md''];
                    solutionFiles = getSolutionFiles A M fs;
                    docFiles = getDocFiles A M fs;
                    knowledgeContent = gen solutionFiles docFiles context
                in writeFile (fileManager M) fs knowledgePath knowledgeContent) of
        Inl e \<Rightarrow> fs
      | Inr fs' \<Rightarrow> fs')"

definition recordInsight ::
  "indexText \<Rightarrow> Ambient \<Rightarrow> 'fs FactsManager \<Rightarrow> 'fs \<Rightarrow> InsightRecord \<Rightarrow> exn + 'fs" where
  "recordInsight gen A M fs insight =
     tryCatch
       (let filename = generateInsightFilename insight;
            filePath = pathJoin [localDocsPath M, ascii ''solutions'', filename];
            content = formatInsightContent A insight
        in await (writeFile (fileManager M) fs filePath content)
             (\<lambda>fs1. Inr (updateKnowledge gen A M fs1)))
       (\<lambda>error. Inl (Error (ascii ''Failed to record insight: '' @ errorMessage error)))"

section \<open>A storage in memory\<close>

text \<open>
  An implementation of \<open>IFileManager\<close> that never throws except when a file to read is
  missing: files as an association list from paths to texts, and the directories that
  exist. Writing a file creates the directories above it.
\<close>

record memfs =
  mem_files :: "(jsstring \<times> jsstring) list"
  mem_dirs :: "jsstring list"

fun ancestorsOf :: "jsstring list \<Rightarrow> jsstring list" where
  "ancestorsOf [] = []"
| "ancestorsOf [x] = []"
| "ancestorsOf (x # y # ys) = x # map (\<lambda>p. x @ ascii ''/'' @ p) (ancestorsOf (y # ys))"

definition dirname :: "jsstring \<Rightarrow> jsstring" where
  "dirname p = join (ascii ''/'') (butlast (split_chr 0x2F p))"

definition mem_exists :: "memfs \<Rightarrow> jsstring \<Rightarrow> exn + bool" where
  "mem_exists fs p = Inr (p \<in> set (mem_dirs fs) \<or> map_of (mem_files fs) p \<noteq> None)"

definition mem_readFile :: "memfs \<Rightarrow> jsstring \<Rightarrow> exn + jsstring" where
  "mem_readFile fs p =
     (case map_of (mem_files fs) p of
        None \<Rightarrow> Inl (Error (ascii ''Failed to read file '' @ p))
      | Some text \<Rightarrow> Inr text)"

definition mem_createDirectory :: "memfs \<Rightarrow> jsstring \<Rightarrow> exn + memfs" where
  "mem_createDirectory fs p =
     Inr (fs\<lparr>mem_dirs := List.union (mem_dirs fs) (ancestorsOf (split_chr 0x2F p) @ [p])\<rparr>)"

definition mem_writeFile :: "memfs \<Rightarrow> jsstring \<Rightarrow> jsstring \<Rightarrow> exn + memfs" where
  "mem_writeFile fs p text =
     Inr (fs\<lparr>mem_files := (p, text) # filter (\<lambda>e. fst e \<noteq> p) (mem_files fs),
              mem_dirs := List.union (mem_dirs fs) (ancestorsOf (split_chr 0x2F p))\<rparr>)"

definition mem_listFiles :: "memfs \<Rightarrow> jsstring \<Rightarrow> exn + jsstring list" where
  "mem_listFiles fs d =
     Inr (map (\<lambda>p. last (split_chr 0x2F p))
            (filter (\<lambda>p. dirname p = d) (map fst (mem_files fs) @ mem_dirs fs)))"

definition memoryFileManager :: "memfs IFileManager" where
  "memoryFileManager =
     \<lparr>exists = mem_exists, readFile = mem_readFile, writeFile = mem_writeFile,
      listFiles = mem_listFiles, createDirectory = mem_createDirectory\<rparr>"

definition emptyFs :: memfs where
  "emptyFs = \<lparr>mem_files = [], mem_dirs = []\<rparr>"

text \<open>A document on which the query \<open>technical\<close> fires all four signals.\<close>

definition allSignalsText :: jsstring where
  "allSignalsText =
     ascii ''---'' @ [nl] @ ascii ''title: Technical notes'' @ [nl]
     @ ascii ''category: technical'' @ [nl] @ ascii ''tags: technical'' @ [nl]
     @ ascii ''---'' @ [nl] @ ascii ''technical body''"

text \<open>
  A small store for concrete runs: project \<open>/p\<close>, a commands file with the section
  \<open>Package Manager\<close>, and one document under \<open>solutions\<close>.
\<close>

definition exampleManager :: "memfs FactsManager" where
  "exampleManager = newFactsManager memoryFileManager (ascii ''/p'')"

definition packageManagerCommand :: Command where
  "packageManagerCommand =
     \<lparr>command = ascii ''Package Manager'', description = ascii ''must use tool X'',
      cmd_lastUpdated = [], cmd_relatedDocs = []\<rparr>"

definition exampleStore :: memfs where
  "exampleStore =
     \<lparr>mem_files =
        [(ascii ''/p/.bkproj/facts/USER_COMMAND.md'',
          ascii ''## Package Manager'' @ [nl] @ ascii ''must use tool X''),
         (ascii ''/p/.bkproj/facts/solutions/pm.md'',
          ascii ''---'' @ [nl] @ ascii ''category: technical'' @ [nl]
          @ ascii ''title: which package manager to use'' @ [nl] @ ascii ''---'' @ [nl]
          @ ascii ''notes on the package manager'')],
      mem_dirs = [ascii ''/p/.bkproj/facts'', ascii ''/p/.bkproj/facts/solutions'']\<rparr>"

text \<open>
  Two more stores: one whose only document is the plain text \<open>hello world\<close>, and one
  whose only document has a header block without any \<open>key: value\<close> line.
\<close>

definition plainStore :: memfs where
  "plainStore =
     \<lparr>mem_files = [(ascii ''/p/.bkproj/facts/docs/plain.md'', ascii ''hello world'')],
      mem_dirs = [ascii ''/p/.bkproj/facts'', ascii ''/p/.bkproj/facts/docs'']\<rparr>"

definition noteStore :: memfs where
  "noteStore =
     \<lparr>mem_files =
        [(ascii ''/p/.bkproj/facts/solutions/n.md'',
          ascii ''---'' @ [nl] @ ascii ''note'' @ [nl] @ ascii ''---'' @ [nl]
          @ ascii ''hello world'')],
      mem_dirs = [ascii ''/p/.bkproj/facts'', ascii ''/p/.bkproj/facts/solutions'']\<rparr>"

definition exampleAmbient :: Ambient where
  "exampleAmbient = \<lparr>cwd = ascii ''/p'', now = ascii ''2025-01-02T03:04:05.678Z''\<rparr>"

text \<open>A storage on which every operation throws.\<close>

definition failingFileManager :: "unit IFileManager" where
  "failingFileManager =
     \<lparr>exists = (\<lambda>fs p. Inl (Error (ascii ''EIO''))),
      readFile = (\<lambda>fs p. Inl (Error (ascii ''EIO''))),
      writeFile = (\<lambda>fs p text. Inl (Error (ascii ''EIO''))),
      listFiles = (\<lambda>fs p. Inl (Error (ascii ''EIO''))),
      createDirectory = (\<lambda>fs p. Inl (Error (ascii ''EIO'')))\<rparr>"

definition failingManager :: "unit FactsManager" where
  "failingManager = newFactsManager failingFileManager (ascii ''/p'')"

text \<open>The insight of the specification's example, and an index text for concrete runs.\<close>

definition loginInsight :: InsightRecord where
  "loginInsight =
     \<lparr>task = ascii ''implement login'', solution = ascii ''use JWT'',
      reasoning = ascii ''stateless'', evidence = [], insightCategory = Technical,
      confidence = High\<rparr>"

definition exampleIndexText :: indexText where
  "exampleIndexText solutionFiles docFiles context = ascii ''index''"

section \<open>Tool layer\<close>

text \<open>
  The argument of a tool is any value: \<open>undefined\<close>, \<open>null\<close>, a boolean, a number, a
  string, an array or an object (its members in order; the first entry of a key counts).
\<close>

datatype json =
    JUndefined
  | JNull
  | JBoolean bool
  | JNumber rat
  | JString jsstring
  | JArray "json list"
  | JObject "(jsstring \<times> json) list"






















text \<open>
  The envelope a tool returns. \<open>data\<close> is \<open>None\<close> for \<open>null\<close>; a success envelope has
  the further members \<open>nextSteps\<close> and, for two of the tools, \<open>metadata\<close>. The objects
  under \<open>data\<close> and \<open>metadata\<close> are assembled by helpers without effects from values
  already at hand; the model takes each of them as a parameter (\<open>mk\<close>, \<open>mkMeta\<close>).
\<close>

record Envelope =
  success :: bool
  message :: jsstring
  data :: "json option"
  timestamp :: jsstring
  nextSteps :: "jsstring list option"
  metadata :: "json option"

definition failureEnvelope :: "jsstring \<Rightarrow> exn \<Rightarrow> jsstring \<Rightarrow> Envelope" where
  "failureEnvelope what error currentTime =
     \<lparr>success = False, message = what @ errorMessage error, data = None,
      timestamp = currentTime, nextSteps = None, metadata = None\<rparr>"





text \<open>
  The texts that \<open>init_facts_system\<close> writes are templates of the source, taken as
  parameters: the index, the commands template, the agent prompt of a file name, the text
  for \<open>CLAUDE.md\<close> and the insight template.
\<close>

record InitTexts =
  knowledgeContent :: jsstring
  userCommandTemplate :: jsstring
  agentTemplate :: "jsstring \<Rightarrow> jsstring"
  claudeMdContent :: "bool \<Rightarrow> jsstring"
  insightTemplate :: jsstring













text \<open>
  Following the words of claim C5, for comparison with the source: the word signal
  computed on the body, that is on the text after the header block.
\<close>

definition wordScoreOfBody :: "jsstring \<Rightarrow> jsstring \<Rightarrow> rat" where
  "wordScoreOfBody query content =
     wordScore (toLowerCase query) (toLowerCase (withoutFrontMatter content))"

section \<open>Facts about the string functions\<close>

lemma str_includes_sublist: "str_includes s t \<longleftrightarrow> sublist t s"
  by (induction s) (auto simp: sublist_Cons_right)

lemma split_ws_from_nonempty: "split_ws_from tok s \<noteq> []"
  by (induction tok s rule: split_ws_from.induct) auto

lemma split_ws_nonempty: "split_ws s \<noteq> []"
  by (simp add: split_ws_def split_ws_from_nonempty)

section \<open>Bounds of the score\<close>

lemma titleScore_range: "0 \<le> titleScore q md \<and> titleScore q md \<le> 4 / 10"
  by (simp add: titleScore_def split: option.split)

lemma wordScore_range: "0 \<le> wordScore q c \<and> wordScore q c \<le> 4 / 10"
proof -
  let ?qs = "split_ws q"
  let ?ms = "filter (wordMatches (split_ws c)) ?qs"
  have pos: "0 < length ?qs"
    using split_ws_nonempty [of q] by simp
  have le: "length ?ms \<le> length ?qs"
    by (rule length_filter_le)
  have frac: "(of_nat (length ?ms) :: rat) / of_nat (length ?qs) \<le> 1"
    using pos le by (simp add: divide_le_eq_1)
  have nonneg: "0 \<le> (of_nat (length ?ms) :: rat) / of_nat (length ?qs)"
    by simp
  have "0 \<le> (of_nat (length ?ms) :: rat) / of_nat (length ?qs) * (4 / 10)"
    using nonneg by simp
  moreover have "(of_nat (length ?ms) :: rat) / of_nat (length ?qs) * (4 / 10) \<le> 4 / 10"
    using frac by simp
  ultimately show ?thesis
    by (simp add: wordScore_def Let_def)
qed

lemma categoryScore_range: "0 \<le> categoryScore q md \<and> categoryScore q md \<le> 1 / 10"
  by (simp add: categoryScore_def split: option.split)

lemma tagScore_range: "0 \<le> tagScore q md \<and> tagScore q md \<le> 1 / 10"
  by (simp add: tagScore_def Let_def split: option.split)

text \<open>
  Claim C1. For every query, document text and header, the relevance score lies between 0
  and 1, both included; when the four signals all contribute their full weights, the
  score is 1.
\<close>

theorem calculateRelevance_range:
  "0 \<le> calculateRelevance q d h \<and> calculateRelevance q d h \<le> 1
   \<and> (titleScore (toLowerCase q) h = 4 / 10
        \<and> wordScore (toLowerCase q) (toLowerCase d) = 4 / 10
        \<and> categoryScore (toLowerCase q) h = 1 / 10
        \<and> tagScore (toLowerCase q) h = 1 / 10
      \<longrightarrow> calculateRelevance q d h = 1)"
proof -
  have "0 \<le> titleScore (toLowerCase q) h + wordScore (toLowerCase q) (toLowerCase d)
            + categoryScore (toLowerCase q) h + tagScore (toLowerCase q) h"
    using titleScore_range [of "toLowerCase q" h]
      wordScore_range [of "toLowerCase q" "toLowerCase d"]
      categoryScore_range [of "toLowerCase q" h]
      tagScore_range [of "toLowerCase q" h]
    by linarith
  then show ?thesis
    by (simp add: calculateRelevance_def Let_def)
qed

theorem calculateRelevance_range_witness:
  "titleScore (toLowerCase (ascii ''technical'')) (parseInsightMetadata allSignalsText) = 4 / 10
   \<and> wordScore (toLowerCase (ascii ''technical'')) (toLowerCase allSignalsText) = 4 / 10
   \<and> categoryScore (toLowerCase (ascii ''technical'')) (parseInsightMetadata allSignalsText)
       = 1 / 10
   \<and> tagScore (toLowerCase (ascii ''technical'')) (parseInsightMetadata allSignalsText) = 1 / 10
   \<and> calculateRelevance (ascii ''technical'') allSignalsText
       (parseInsightMetadata allSignalsText) = 1"
proof -
  let ?q = "toLowerCase (ascii ''technical'')" and ?h = "parseInsightMetadata allSignalsText"
  have t: "titleScore ?q ?h = 4 / 10"
    by code_simp
  have w: "wordScore ?q (toLowerCase allSignalsText) = 4 / 10"
    by code_simp
  have c: "categoryScore ?q ?h = 1 / 10"
    by code_simp
  have g: "tagScore ?q ?h = 1 / 10"
    by code_simp
  show ?thesis
    using calculateRelevance_range [of "ascii ''technical''" allSignalsText ?h] t w c g
    by simp
qed

section \<open>Sections of the commands file\<close>

lemma foldl_pushCommand:
  "foldl pushCommand acc ss =
     acc @ filter (\<lambda>c. command c \<noteq> [] \<and> description c \<noteq> []) (map parseSection ss)"
  by (induction ss arbitrary: acc) (simp_all add: pushCommand_def Let_def)

lemma labels_start_with_stars:
  "l \<in> set (descriptionLabels @ relatedDocsLabels @ lastUpdatedLabels) \<Longrightarrow>
   prefix (ascii ''**'') l"
  by (auto simp: descriptionLabels_def relatedDocsLabels_def lastUpdatedLabels_def ascii_def)

lemma startsWithAny_stars:
  assumes "\<not> startsWith line (ascii ''**'')"
  shows "\<not> startsWithAny line descriptionLabels"
    and "\<not> startsWithAny line relatedDocsLabels"
    and "\<not> startsWithAny line lastUpdatedLabels"
  using assms labels_start_with_stars prefix_order.trans [of "ascii ''**''" _ line]
  by (auto simp: startsWithAny_def startsWith_def list_ex_iff)

lemma sectionLine_unlabeled:
  assumes "\<not> startsWith (trim raw) (ascii ''**'')" and "trim raw \<noteq> []"
    and "description c = []"
  shows "sectionLine c raw = c\<lparr>description := trim raw\<rparr>"
  using assms startsWithAny_stars [OF assms(1)]
  by (simp add: sectionLine_def Let_def)

text \<open>
  Claim C9, as amended. The commands parsed from the file are, in order, the sections
  that have both a name and a description: a section is kept if and only if neither is
  empty, and a section that lacks either one is discarded. While no description has been
  set, a non-empty line without label becomes the description.
\<close>

theorem parseUserCommands_keeps_named_and_described:
  "parseUserCommands content =
     filter (\<lambda>c. command c \<noteq> [] \<and> description c \<noteq> [])
       (map parseSection (sections content))
   \<and> (\<not> startsWith (trim raw) (ascii ''**'') \<and> trim raw \<noteq> [] \<and> description c = []
      \<longrightarrow> sectionLine c raw = c\<lparr>description := trim raw\<rparr>)"
  using sectionLine_unlabeled [of raw c]
  by (simp add: parseUserCommands_def foldl_pushCommand)

theorem parseUserCommands_keeps_named_and_described_witness:
  "\<not> startsWith (trim (ascii '' must use tool X'')) (ascii ''**'')
   \<and> trim (ascii '' must use tool X'') \<noteq> []
   \<and> sectionLine
       \<lparr>command = ascii ''Package Manager'', description = [], cmd_lastUpdated = [],
        cmd_relatedDocs = []\<rparr> (ascii '' must use tool X'')
       = packageManagerCommand
   \<and> parseUserCommands (ascii ''## Package Manager'' @ [nl] @ ascii '' must use tool X'')
       = [packageManagerCommand]"
proof -
  let ?c = "\<lparr>command = ascii ''Package Manager'', description = [], cmd_lastUpdated = [],
             cmd_relatedDocs = []\<rparr>"
  let ?raw = "ascii '' must use tool X''"
  let ?text = "ascii ''## Package Manager'' @ [nl] @ ascii '' must use tool X''"
  have a: "\<not> startsWith (trim ?raw) (ascii ''**'')"
    by code_simp
  have b: "trim ?raw \<noteq> []"
    by code_simp
  have t: "trim ?raw = ascii ''must use tool X''"
    by code_simp
  have s: "map parseSection (sections ?text) = [packageManagerCommand]"
    by code_simp
  have k: "command packageManagerCommand \<noteq> [] \<and> description packageManagerCommand \<noteq> []"
    by code_simp
  note T = parseUserCommands_keeps_named_and_described [of ?text ?raw ?c]
  have "sectionLine ?c ?raw = ?c\<lparr>description := trim ?raw\<rparr>"
    using T a b by simp
  then have l: "sectionLine ?c ?raw = packageManagerCommand"
    by (simp add: t packageManagerCommand_def)
  have "parseUserCommands ?text = [packageManagerCommand]"
    using T s k by simp
  then show ?thesis
    using a b l by simp
qed

text \<open>
  Against claim C9 as stated: the file \<open>## Build\<close> has one section, whose name is
  \<open>Build\<close> and which has no description, and the file made of \<open>## \<close>, a newline and
  \<open>only text\<close> has one section with a description and no name; neither becomes a command.
\<close>

theorem parseUserCommands_counterexample:
  "sections (ascii ''## Build'' @ [nl]) = [ascii ''Build'' @ [nl]]
   \<and> command (parseSection (ascii ''Build'' @ [nl])) = ascii ''Build''
   \<and> description (parseSection (ascii ''Build'' @ [nl])) = []
   \<and> parseUserCommands (ascii ''## Build'' @ [nl]) = []
   \<and> sections (ascii ''## '' @ [nl] @ ascii ''only text'') = [[nl] @ ascii ''only text'']
   \<and> command (parseSection ([nl] @ ascii ''only text'')) = []
   \<and> description (parseSection ([nl] @ ascii ''only text'')) = ascii ''only text''
   \<and> parseUserCommands (ascii ''## '' @ [nl] @ ascii ''only text'') = []"
  by code_simp

section \<open>The word signal\<close>

lemma wordMatches_sublist:
  "wordMatches ws w \<longleftrightarrow> (\<exists>cw \<in> set ws. sublist w cw \<or> sublist cw w)"
  by (simp add: wordMatches_def list_ex_iff str_includes_sublist)

text \<open>
  Claim C5, as amended. The word signal splits the lower-cased query and the whole
  lower-cased document text, header block included, at whitespace; a query token matches
  when it occurs inside some token of the text or some token of the text occurs inside
  it; the signal adds (matching query tokens / query tokens) times 0.4 to the score.
\<close>

theorem calculateRelevance_word_signal:
  "calculateRelevance q d h =
     min (titleScore (toLowerCase q) h
          + (of_nat (length (filter (\<lambda>w. \<exists>cw \<in> set (split_ws (toLowerCase d)).
                                          sublist w cw \<or> sublist cw w)
                               (split_ws (toLowerCase q))))
             / of_nat (length (split_ws (toLowerCase q)))) * (4 / 10)
          + categoryScore (toLowerCase q) h + tagScore (toLowerCase q) h) 1"
proof -
  have "filter (wordMatches (split_ws (toLowerCase d))) (split_ws (toLowerCase q)) =
        filter (\<lambda>w. \<exists>cw \<in> set (split_ws (toLowerCase d)). sublist w cw \<or> sublist cw w)
          (split_ws (toLowerCase q))"
    by (rule filter_cong) (simp_all add: wordMatches_sublist)
  then show ?thesis
    by (simp add: calculateRelevance_def wordScore_def Let_def)
qed

text \<open>
  Against claim C5 as stated: the query \<open>confidence:\<close> has one token, which is a token
  of the header of the text below and occurs nowhere in its body \<open>hello\<close>. The source
  gives the word signal its full weight; computed on the body it would be 0.
\<close>

theorem word_signal_counterexample:
  "withoutFrontMatter
       (ascii ''---'' @ [nl] @ ascii ''confidence: high'' @ [nl] @ ascii ''---'' @ [nl]
        @ ascii ''hello'') = ascii ''hello''
   \<and> wordScoreOfBody (ascii ''confidence:'')
       (ascii ''---'' @ [nl] @ ascii ''confidence: high'' @ [nl] @ ascii ''---'' @ [nl]
        @ ascii ''hello'') = 0
   \<and> calculateRelevance (ascii ''confidence:'')
       (ascii ''---'' @ [nl] @ ascii ''confidence: high'' @ [nl] @ ascii ''---'' @ [nl]
        @ ascii ''hello'')
       (parseInsightMetadata
          (ascii ''---'' @ [nl] @ ascii ''confidence: high'' @ [nl] @ ascii ''---'' @ [nl]
           @ ascii ''hello'')) = 4 / 10"
  by code_simp

section \<open>Commands before documents\<close>

lemma getUserCommands_returns: "\<exists>cmds. getUserCommands M fs q = Inr cmds"
  by (simp add: getUserCommands_def tryCatch_def await_def split: sum.split)

lemma searchFactsInternal_returns: "\<exists>docs. searchFactsInternal M fs q opts = Inr docs"
  by (simp add: searchFactsInternal_def tryCatch_def await_def Let_def split: sum.split)

lemma getUserCommands_read:
  "exists (fileManager M) fs (userCommandPath M) = Inr True \<Longrightarrow>
   readFile (fileManager M) fs (userCommandPath M) = Inr content \<Longrightarrow>
   getUserCommands M fs q = Inr (filter (commandMatches q) (parseUserCommands content))"
  by (simp add: getUserCommands_def tryCatch_def await_def)

lemma searchFacts_append:
  "getUserCommands M fs q = Inr cmds \<Longrightarrow> searchFactsInternal M fs q opts = Inr docs \<Longrightarrow>
   searchFacts M fs q opts = Inr (map (commandFact M) cmds @ docs)"
  by (cases cmds) (simp_all add: searchFacts_def await_def Let_def)

lemma commandFact_score: "list_all (\<lambda>f. relevanceScore f = 1) (map (commandFact M) cmds)"
  by (simp add: list_all_iff commandFact_def)

text \<open>
  Claim C2. Whatever the storage answers, \<open>searchFacts\<close> returns the results made from
  the commands that \<open>getUserCommands\<close> matched, each with the score 1, followed by the
  scored documents of \<open>searchFactsInternal\<close>: every command result stands before every
  document result. When no command matched, the result is that of \<open>searchFactsInternal\<close>
  alone. When the commands file exists and can be read, the matched commands are the
  parsed commands that satisfy \<open>commandMatches\<close>.
\<close>

theorem searchFacts_commands_first:
  "\<exists>cmds docs.
     getUserCommands M fs q = Inr cmds
     \<and> searchFactsInternal M fs q opts = Inr docs
     \<and> searchFacts M fs q opts = Inr (map (commandFact M) cmds @ docs)
     \<and> list_all (\<lambda>f. relevanceScore f = 1) (map (commandFact M) cmds)
     \<and> (cmds = [] \<longrightarrow> searchFacts M fs q opts = searchFactsInternal M fs q opts)
     \<and> (\<forall>content. exists (fileManager M) fs (userCommandPath M) = Inr True
            \<and> readFile (fileManager M) fs (userCommandPath M) = Inr content
          \<longrightarrow> cmds = filter (commandMatches q) (parseUserCommands content))"
proof -
  obtain cmds where c: "getUserCommands M fs q = Inr cmds"
    using getUserCommands_returns [of M fs q] by blast
  obtain docs where d: "searchFactsInternal M fs q opts = Inr docs"
    using searchFactsInternal_returns [of M fs q opts] by blast
  have s: "searchFacts M fs q opts = Inr (map (commandFact M) cmds @ docs)"
    using c d by (rule searchFacts_append)
  have m: "cmds = filter (commandMatches q) (parseUserCommands content)"
    if "exists (fileManager M) fs (userCommandPath M) = Inr True"
      and "readFile (fileManager M) fs (userCommandPath M) = Inr content" for content
    using getUserCommands_read [OF that, of q] c by simp
  show ?thesis
    using c d s m commandFact_score [of M cmds] by (intro exI [of _ cmds] exI [of _ docs]) auto
qed

theorem searchFacts_commands_first_witness:
  "getUserCommands exampleManager exampleStore (ascii ''which package manager'')
     = Inr [packageManagerCommand]
   \<and> map_sum id (map (\<lambda>d. (path d, relevanceScore d)))
       (searchFacts exampleManager exampleStore (ascii ''which package manager'') noOptions)
     = Inr [(ascii ''/p/.bkproj/facts/USER_COMMAND.md'', 1),
            (ascii ''/p/.bkproj/facts/solutions/pm.md'', 8 / 10)]
   \<and> getUserCommands exampleManager exampleStore (ascii ''which'') = Inr []
   \<and> searchFacts exampleManager exampleStore (ascii ''which'') noOptions
     = searchFactsInternal exampleManager exampleStore (ascii ''which'') noOptions"
proof -
  let ?M = exampleManager and ?fs = exampleStore
  let ?q = "ascii ''which package manager''" and ?r = "ascii ''which''"
  obtain cmds docs where c: "getUserCommands ?M ?fs ?q = Inr cmds"
    and d: "searchFactsInternal ?M ?fs ?q noOptions = Inr docs"
    and s: "searchFacts ?M ?fs ?q noOptions = Inr (map (commandFact ?M) cmds @ docs)"
    using searchFacts_commands_first [of ?M ?fs ?q noOptions] by blast
  obtain cmds' where c': "getUserCommands ?M ?fs ?r = Inr cmds'"
    and z: "cmds' = [] \<longrightarrow> searchFacts ?M ?fs ?r noOptions = searchFactsInternal ?M ?fs ?r noOptions"
    using searchFacts_commands_first [of ?M ?fs ?r noOptions] by blast
  have c1: "getUserCommands ?M ?fs ?q = Inr [packageManagerCommand]"
    by code_simp
  have d1: "map_sum id (map (\<lambda>d. (path d, relevanceScore d))) (searchFactsInternal ?M ?fs ?q noOptions)
      = Inr [(ascii ''/p/.bkproj/facts/solutions/pm.md'', 8 / 10)]"
    by code_simp
  have p1: "path (commandFact ?M packageManagerCommand) = ascii ''/p/.bkproj/facts/USER_COMMAND.md''"
    by code_simp
  have c2: "getUserCommands ?M ?fs ?r = Inr []"
    by code_simp
  have "cmds = [packageManagerCommand]" using c c1 by simp
  moreover have "cmds' = []" using c' c2 by simp
  ultimately show ?thesis
    using c1 c2 d d1 s z p1 by (simp add: commandFact_def)
qed

section \<open>The blank query\<close>

lemma lowerUnit_ws: "is_ws c \<Longrightarrow> lowerUnit c = c"
proof -
  assume ws: "is_ws c"
  have "\<not> (0x41 \<le> c \<and> c \<le> 0x5A)"
  proof
    assume cap: "0x41 \<le> c \<and> c \<le> 0x5A"
    show False
    proof (cases "0x2000 \<le> c")
      case True
      then have "(0x2000 :: 16 word) \<le> 0x5A" using cap by (meson order_trans)
      then show False by simp
    next
      case False
      then have "c \<in> set [0x09, 0x0A, 0x0B, 0x0C, 0x0D, 0x20, 0xA0, 0x1680, 0x2028, 0x2029,
                          0x202F, 0x205F, 0x3000, 0xFEFF]"
        using ws by (simp add: is_ws_def)
      then show False using cap by auto
    qed
  qed
  then show ?thesis by (simp add: lowerUnit_def)
qed

lemma toLowerCase_blank: "list_all is_ws q \<Longrightarrow> toLowerCase q = q"
  by (induction q) (simp_all add: toLowerCase_def lowerUnit_ws)

lemma split_ws_blank_hd: "list_all is_ws q \<Longrightarrow> hd (split_ws q) = []"
  by (cases q) (simp_all add: split_ws_def)

lemma str_includes_Nil: "str_includes s []"
  by (simp add: str_includes_sublist)

lemma commandMatches_blank:
  assumes "list_all is_ws q"
  shows "commandMatches q cmd"
proof -
  have "split_ws (toLowerCase q) \<noteq> []" by (rule split_ws_nonempty)
  moreover have "hd (split_ws (toLowerCase q)) = []"
    using assms by (simp add: toLowerCase_blank split_ws_blank_hd)
  ultimately have "[] \<in> set (split_ws (toLowerCase q))"
    by (metis hd_in_set)
  then show ?thesis
    by (auto simp: commandMatches_def Let_def list_ex_iff str_includes_Nil intro!: bexI [of _ "[]"])
qed

text \<open>
  Claim C10. When the query is empty or consists of whitespace only and the commands file
  exists and can be read, every parsed command matches: \<open>searchFacts\<close> returns the
  results of all parsed commands, each with the score 1, followed by the scored documents.
\<close>

theorem searchFacts_blank_query:
  assumes "list_all is_ws q"
    and "exists (fileManager M) fs (userCommandPath M) = Inr True"
    and "readFile (fileManager M) fs (userCommandPath M) = Inr content"
  shows "\<exists>docs. searchFactsInternal M fs q opts = Inr docs
     \<and> getUserCommands M fs q = Inr (parseUserCommands content)
     \<and> searchFacts M fs q opts = Inr (map (commandFact M) (parseUserCommands content) @ docs)
     \<and> list_all (\<lambda>f. relevanceScore f = 1) (map (commandFact M) (parseUserCommands content))"
proof -
  obtain docs where d: "searchFactsInternal M fs q opts = Inr docs"
    using searchFactsInternal_returns [of M fs q opts] by blast
  have "filter (commandMatches q) (parseUserCommands content) = parseUserCommands content"
    using assms(1) by (simp add: commandMatches_blank)
  then have c: "getUserCommands M fs q = Inr (parseUserCommands content)"
    using getUserCommands_read [OF assms(2,3), of q] by simp
  have s: "searchFacts M fs q opts = Inr (map (commandFact M) (parseUserCommands content) @ docs)"
    using c d by (cases "parseUserCommands content") (simp_all add: searchFacts_def await_def Let_def)
  show ?thesis
    using c d s by (simp add: list_all_iff commandFact_def)
qed

theorem searchFacts_blank_query_witness:
  "list_all is_ws (ascii ''  '')
   \<and> exists (fileManager exampleManager) exampleStore (userCommandPath exampleManager) = Inr True
   \<and> parseUserCommands (ascii ''## Package Manager'' @ [nl] @ ascii ''must use tool X'')
       = [packageManagerCommand]
   \<and> searchFacts exampleManager exampleStore (ascii ''  '') noOptions
       = Inr [commandFact exampleManager packageManagerCommand]"
proof -
  let ?M = exampleManager and ?fs = exampleStore
  let ?text = "ascii ''## Package Manager'' @ [nl] @ ascii ''must use tool X''"
  have ws: "list_all is_ws (ascii ''  '')"
    by code_simp
  have ex: "exists (fileManager ?M) ?fs (userCommandPath ?M) = Inr True"
    by code_simp
  have rd: "readFile (fileManager ?M) ?fs (userCommandPath ?M) = Inr ?text"
    by code_simp
  have pc: "parseUserCommands ?text = [packageManagerCommand]"
    by code_simp
  have no: "searchFactsInternal ?M ?fs (ascii ''  '') noOptions = Inr []"
    by code_simp
  obtain docs where "searchFactsInternal ?M ?fs (ascii ''  '') noOptions = Inr docs"
    and "searchFacts ?M ?fs (ascii ''  '') noOptions
           = Inr (map (commandFact ?M) (parseUserCommands ?text) @ docs)"
    using searchFacts_blank_query [OF ws ex rd, of noOptions] by blast
  then show ?thesis
    using ws ex pc no by simp
qed

section \<open>Documents without a header block\<close>

lemma parseInsightMetadata_no_header:
  "frontMatterMatch content = None \<Longrightarrow> parseInsightMetadata content = defaultMetadata"
  by (simp add: parseInsightMetadata_def)

lemma defaultMetadata_fields:
  "defaultMetadata (ascii ''category'') = Some (ascii ''technical'')"
  "defaultMetadata (ascii ''created_date'') = Some []"
  "defaultMetadata (ascii ''title'') = Some []"
  by (simp_all add: defaultMetadata_def ascii_def)

lemma technical_default: "ascii ''technical'' \<in> set defaultCategories"
  by (simp add: defaultCategories_def)

lemma processFile_no_header:
  assumes "frontMatterMatch content = None"
    and "readFile (fileManager M) fs p = Inr content"
  shows "processFile M fs q defaultCategories r docs p =
     (if calculateRelevance q content defaultMetadata \<ge> r
      then docs @ [\<lparr>path = p, title = basenameMd p, category = ascii ''technical'',
                     relevanceScore = calculateRelevance q content defaultMetadata,
                     summary = extractSummary content, lastUpdated = [], relatedDocs = None\<rparr>]
      else docs)"
  using assms
  by (simp add: processFile_def parseInsightMetadata_no_header defaultMetadata_fields
      technical_default orElse_def Let_def)

lemma processFile_keeps: "set docs \<subseteq> set (processFile M fs q cats r docs p)"
  by (auto simp: processFile_def Let_def split: sum.split option.split)

lemma foldl_processFile_keeps:
  "set docs \<subseteq> set (foldl (processFile M fs q cats r) docs ps)"
proof (induction ps arbitrary: docs)
  case Nil
  then show ?case by simp
next
  case (Cons p ps)
  have "set docs \<subseteq> set (processFile M fs q cats r docs p)"
    by (rule processFile_keeps)
  also have "\<dots> \<subseteq> set (foldl (processFile M fs q cats r) (processFile M fs q cats r docs p) ps)"
    by (rule Cons.IH)
  finally show ?case by simp
qed

lemma foldl_processFile_no_header:
  assumes "frontMatterMatch content = None"
    and "readFile (fileManager M) fs p = Inr content"
    and "p \<in> set ps"
    and "calculateRelevance q content defaultMetadata \<ge> r"
  shows "\<exists>d \<in> set (foldl (processFile M fs q defaultCategories r) docs ps).
           path d = p \<and> category d = ascii ''technical'' \<and> title d = basenameMd p
           \<and> lastUpdated d = []"
  using assms(3)
proof (induction ps arbitrary: docs)
  case Nil
  then show ?case by simp
next
  case (Cons x ps)
  show ?case
  proof (cases "x = p")
    case True
    let ?d = "\<lparr>path = p, title = basenameMd p, category = ascii ''technical'',
                relevanceScore = calculateRelevance q content defaultMetadata,
                summary = extractSummary content, lastUpdated = [], relatedDocs = None\<rparr>"
    have "?d \<in> set (processFile M fs q defaultCategories r docs p)"
      using processFile_no_header [OF assms(1,2), where q = q and r = r and docs = docs] assms(4)
      by simp
    then have "?d \<in> set (foldl (processFile M fs q defaultCategories r)
                            (processFile M fs q defaultCategories r docs p) ps)"
      using foldl_processFile_keeps
        [where docs = "processFile M fs q defaultCategories r docs p" and M = M and fs = fs
           and q = q and cats = defaultCategories and r = r and ps = ps]
      by auto
    then show ?thesis
      using True by (intro bexI [of _ ?d]) simp_all
  next
    case False
    then have "p \<in> set ps" using Cons.prems by simp
    then show ?thesis using Cons.IH by simp
  qed
qed

lemma contextFile_keeps: "set (fst st) \<subseteq> set (fst (contextFile M fs st p))"
  by (auto simp: contextFile_def Let_def setAdd_def split: sum.split option.split)

lemma foldl_contextFile_keeps:
  "set (fst st) \<subseteq> set (fst (foldl (contextFile M fs) st ps))"
proof (induction ps arbitrary: st)
  case Nil
  then show ?case by simp
next
  case (Cons p ps)
  have "set (fst st) \<subseteq> set (fst (contextFile M fs st p))"
    by (rule contextFile_keeps)
  also have "\<dots> \<subseteq> set (fst (foldl (contextFile M fs) (contextFile M fs st p) ps))"
    by (rule Cons.IH)
  finally show ?case by simp
qed

lemma contextFile_no_header:
  assumes "frontMatterMatch content = None"
    and "readFile (fileManager M) fs p = Inr content"
  shows "contextFile M fs st p = (setAdd (fst st) (Some (ascii ''technical'')), snd st)"
  using assms
  by (simp add: contextFile_def parseInsightMetadata_no_header defaultMetadata_fields Let_def)

lemma foldl_contextFile_no_header:
  assumes "frontMatterMatch content = None"
    and "readFile (fileManager M) fs p = Inr content"
    and "p \<in> set ps"
  shows "Some (ascii ''technical'') \<in> set (fst (foldl (contextFile M fs) st ps))"
  using assms(3)
proof (induction ps arbitrary: st)
  case Nil
  then show ?case by simp
next
  case (Cons x ps)
  show ?case
  proof (cases "x = p")
    case True
    have "Some (ascii ''technical'') \<in> set (fst (contextFile M fs st p))"
      by (simp add: contextFile_no_header [OF assms(1,2)] setAdd_def)
    then show ?thesis
      using True foldl_contextFile_keeps
        [where st = "contextFile M fs st p" and M = M and fs = fs and ps = ps]
      by auto
  next
    case False
    then have "p \<in> set ps" using Cons.prems by simp
    then show ?thesis using Cons.IH by simp
  qed
qed

lemma searchFacts_returns: "\<exists>docs. searchFacts M fs q opts = Inr docs"
  using getUserCommands_returns [of M fs q] searchFactsInternal_returns [of M fs q opts]
    searchFacts_append [of M fs q _ opts]
  by blast

text \<open>
  Claim C6, as amended. A document whose text has no header block (it does not begin with
  the opening line, or the closing line is missing) gets the default header: category
  \<open>technical\<close>, empty date, empty title. When such a file is among the files of the
  collection and can be read, searching does not fail, the file passes the default
  category filter (it is among the candidates, with category \<open>technical\<close>, as soon as its
  score reaches the threshold), and \<open>getProjectContext\<close> succeeds with \<open>technical\<close> among
  its categories.
\<close>

theorem no_header_is_technical:
  assumes "frontMatterMatch content = None"
    and "readFile (fileManager M) fs p = Inr content"
    and "p \<in> set (findInsightFiles M fs)"
    and "exists (fileManager M) fs (localDocsPath M) = Inr True"
  shows "parseInsightMetadata content = defaultMetadata
     \<and> (\<exists>docs. searchFacts M fs q opts = Inr docs)
     \<and> (calculateRelevance q content defaultMetadata \<ge> r \<longrightarrow>
          (\<exists>d \<in> set (foldl (processFile M fs q defaultCategories r) []
                          (findInsightFiles M fs)).
             path d = p \<and> category d = ascii ''technical'' \<and> title d = basenameMd p
             \<and> lastUpdated d = []))
     \<and> (\<exists>ctx. getProjectContext A M fs = Inr ctx
          \<and> Some (ascii ''technical'') \<in> set (categories ctx))"
proof -
  have "\<exists>ctx. getProjectContext A M fs = Inr ctx
          \<and> Some (ascii ''technical'') \<in> set (categories ctx)"
    using assms(4) foldl_contextFile_no_header [OF assms(1,2,3), where st = "([], epoch)"]
    by (simp add: getProjectContext_def tryCatch_def await_def Let_def)
  then show ?thesis
    using parseInsightMetadata_no_header [OF assms(1)] searchFacts_returns [of M fs q opts]
      foldl_processFile_no_header [OF assms(1,2,3), where q = q and r = r and docs = "[]"]
    by blast
qed

theorem no_header_is_technical_witness:
  "frontMatterMatch (ascii ''hello world'') = None
   \<and> readFile (fileManager exampleManager) plainStore (ascii ''/p/.bkproj/facts/docs/plain.md'')
       = Inr (ascii ''hello world'')
   \<and> findInsightFiles exampleManager plainStore = [ascii ''/p/.bkproj/facts/docs/plain.md'']
   \<and> parseInsightMetadata (ascii ''hello world'') = defaultMetadata
   \<and> calculateRelevance (ascii ''hello'') (ascii ''hello world'') defaultMetadata = 4 / 10
   \<and> (\<exists>d \<in> set (foldl (processFile exampleManager plainStore (ascii ''hello'')
                          defaultCategories (4 / 10)) []
                     (findInsightFiles exampleManager plainStore)).
         path d = ascii ''/p/.bkproj/facts/docs/plain.md'' \<and> category d = ascii ''technical'')
   \<and> (\<exists>ctx. getProjectContext exampleAmbient exampleManager plainStore = Inr ctx
         \<and> Some (ascii ''technical'') \<in> set (categories ctx))"
proof -
  let ?M = exampleManager and ?fs = plainStore
  let ?p = "ascii ''/p/.bkproj/facts/docs/plain.md''" and ?c = "ascii ''hello world''"
  have h1: "frontMatterMatch ?c = None"
    by code_simp
  have h2: "readFile (fileManager ?M) ?fs ?p = Inr ?c"
    by code_simp
  have fl: "findInsightFiles ?M ?fs = [?p]"
    by code_simp
  have h3: "?p \<in> set (findInsightFiles ?M ?fs)"
    by (simp add: fl)
  have h4: "exists (fileManager ?M) ?fs (localDocsPath ?M) = Inr True"
    by code_simp
  have sc: "calculateRelevance (ascii ''hello'') ?c defaultMetadata = 4 / 10"
    by code_simp
  have ge: "calculateRelevance (ascii ''hello'') ?c defaultMetadata \<ge> 4 / 10"
    by (simp only: sc order_refl)
  note T = no_header_is_technical [OF h1 h2 h3 h4, where q = "ascii ''hello''" and r = "4 / 10"
      and opts = noOptions and A = exampleAmbient]
  have md: "parseInsightMetadata ?c = defaultMetadata"
    using T by blast
  have cand: "\<exists>d \<in> set (foldl (processFile ?M ?fs (ascii ''hello'') defaultCategories (4 / 10)) []
                          (findInsightFiles ?M ?fs)).
         path d = ?p \<and> category d = ascii ''technical''"
    using T ge by blast
  have ctx: "\<exists>ctx. getProjectContext exampleAmbient ?M ?fs = Inr ctx
         \<and> Some (ascii ''technical'') \<in> set (categories ctx)"
    using T by blast
  show ?thesis
    using h1 h2 fl md sc cand ctx by blast
qed

text \<open>
  Against claim C6 as stated: the document below has a header block in which no field is
  recognized. Its header has no category, so the search leaves it out even with the
  threshold 0 and the default categories, and the context lists \<open>undefined\<close> in place of
  \<open>technical\<close>.
\<close>

theorem no_recognized_field_counterexample:
  "frontMatterMatch (ascii ''---'' @ [nl] @ ascii ''note'' @ [nl] @ ascii ''---'' @ [nl]
                     @ ascii ''hello world'') = Some (ascii ''note'')
   \<and> map (parseInsightMetadata (ascii ''---'' @ [nl] @ ascii ''note'' @ [nl] @ ascii ''---'' @ [nl]
                                 @ ascii ''hello world''))
       [ascii ''category'', ascii ''confidence'', ascii ''created_date'', ascii ''tags'',
        ascii ''title''] = [None, None, None, None, None]
   \<and> findInsightFiles exampleManager noteStore = [ascii ''/p/.bkproj/facts/solutions/n.md'']
   \<and> searchFacts exampleManager noteStore (ascii ''hello world'')
       (noOptions\<lparr>opt_minRelevance := Some 0\<rparr>) = Inr []
   \<and> map_sum id categories (getProjectContext exampleAmbient exampleManager noteStore)
       = Inr [None]"
  by code_simp

section \<open>Failures of the storage\<close>

lemma processFile_unreadable:
  "readFile (fileManager M) fs p = Inl e \<Longrightarrow> processFile M fs q cats r docs p = docs"
  by (simp add: processFile_def)

lemma contextFile_unreadable:
  "readFile (fileManager M) fs p = Inl e \<Longrightarrow> contextFile M fs st p = st"
  by (simp add: contextFile_def)

lemma entryFile_unreadable:
  "readFile (fileManager M) fs (pathJoin [dir, name]) = Inl e \<Longrightarrow>
   entryFile A M fs dir entries name = entries"
  by (simp add: entryFile_def Let_def)

lemma searchFactsInternal_root_fails:
  "exists (fileManager M) fs (localDocsPath M) = Inl e \<Longrightarrow>
   searchFactsInternal M fs q opts = Inr []"
  by (simp add: searchFactsInternal_def tryCatch_def await_def Let_def)

lemma findInsightFiles_listing_fails:
  "listIfExists (fileManager M) fs (pathJoin [localDocsPath M, ascii ''solutions'']) = Inl e \<Longrightarrow>
   findInsightFiles M fs = []"
  by (simp add: findInsightFiles_def Let_def)

lemma getProjectContext_root_fails:
  "exists (fileManager M) fs (localDocsPath M) = Inl e \<Longrightarrow>
   getProjectContext A M fs =
     Inl (Error (ascii ''Failed to get project context: '' @ errorMessage e))"
  by (simp add: getProjectContext_def tryCatch_def await_def)

lemma recordInsight_write_fails:
  "writeFile (fileManager M) fs
       (pathJoin [localDocsPath M, ascii ''solutions'', generateInsightFilename i])
       (formatInsightContent A i) = Inl e \<Longrightarrow>
   recordInsight gen A M fs i = Inl (Error (ascii ''Failed to record insight: '' @ errorMessage e))"
  by (simp add: recordInsight_def tryCatch_def await_def Let_def)

lemma recordInsight_write_succeeds:
  "writeFile (fileManager M) fs
       (pathJoin [localDocsPath M, ascii ''solutions'', generateInsightFilename i])
       (formatInsightContent A i) = Inr fs' \<Longrightarrow>
   recordInsight gen A M fs i = Inr (updateKnowledge gen A M fs')"
  by (simp add: recordInsight_def tryCatch_def await_def Let_def)

lemma initializeLocalDocs_succeeds:
  "initializeLocalDocs M fs = Inr fsd \<longleftrightarrow>
     (\<exists>fsa fsb. createDirectory (fileManager M) fs (localDocsPath M) = Inr fsa
        \<and> createDirectory (fileManager M) fsa (pathJoin [localDocsPath M, ascii ''solutions''])
            = Inr fsb
        \<and> createDirectory (fileManager M) fsb (pathJoin [localDocsPath M, ascii ''docs''])
            = Inr fsd)"
  by (auto simp: initializeLocalDocs_def tryCatch_def await_def split: sum.splits)

lemma initializeLocalDocs_fails:
  "createDirectory (fileManager M) fs (localDocsPath M) = Inl e \<Longrightarrow>
   initializeLocalDocs M fs =
     Inl (Error (ascii ''Failed to initialize local docs: '' @ errorMessage e))"
  by (simp add: initializeLocalDocs_def tryCatch_def await_def)

text \<open>
  Claim C4, as amended. \<open>searchFacts\<close> never raises: a failed existence check of the root
  gives no scored documents and a failed listing of the solutions directory gives no
  files. A file that cannot be read is skipped by the scans of search, context and index
  rebuild. A failure propagates, wrapped in an error of the operation, from
  \<open>getProjectContext\<close> when the existence check of the root fails, from \<open>recordInsight\<close>
  when the write of the document fails, and from \<open>initializeLocalDocs\<close> when the creation
  of the root directory fails (it succeeds exactly when its three directory creations
  succeed); once the document is written, \<open>recordInsight\<close> succeeds whatever happens to
  the index.
\<close>

theorem storage_failures:
  "(\<exists>docs. searchFacts M fs q opts = Inr docs)
   \<and> (exists (fileManager M) fs (localDocsPath M) = Inl e \<longrightarrow>
        searchFactsInternal M fs q opts = Inr [])
   \<and> (listIfExists (fileManager M) fs (pathJoin [localDocsPath M, ascii ''solutions'']) = Inl e
        \<longrightarrow> findInsightFiles M fs = [])
   \<and> (readFile (fileManager M) fs p = Inl e \<longrightarrow>
        processFile M fs q cats r docs p = docs \<and> contextFile M fs st p = st)
   \<and> (readFile (fileManager M) fs (pathJoin [dir, name]) = Inl e \<longrightarrow>
        entryFile A M fs dir entries name = entries)
   \<and> (exists (fileManager M) fs (localDocsPath M) = Inl e \<longrightarrow>
        getProjectContext A M fs =
          Inl (Error (ascii ''Failed to get project context: '' @ errorMessage e)))
   \<and> (writeFile (fileManager M) fs
          (pathJoin [localDocsPath M, ascii ''solutions'', generateInsightFilename i])
          (formatInsightContent A i) = Inl e \<longrightarrow>
        recordInsight gen A M fs i =
          Inl (Error (ascii ''Failed to record insight: '' @ errorMessage e)))
   \<and> (writeFile (fileManager M) fs
          (pathJoin [localDocsPath M, ascii ''solutions'', generateInsightFilename i])
          (formatInsightContent A i) = Inr fs' \<longrightarrow>
        recordInsight gen A M fs i = Inr (updateKnowledge gen A M fs'))
   \<and> (createDirectory (fileManager M) fs (localDocsPath M) = Inl e \<longrightarrow>
        initializeLocalDocs M fs =
          Inl (Error (ascii ''Failed to initialize local docs: '' @ errorMessage e)))
   \<and> (initializeLocalDocs M fs = Inr fsd \<longleftrightarrow>
        (\<exists>fsa fsb. createDirectory (fileManager M) fs (localDocsPath M) = Inr fsa
           \<and> createDirectory (fileManager M) fsa (pathJoin [localDocsPath M, ascii ''solutions''])
               = Inr fsb
           \<and> createDirectory (fileManager M) fsb (pathJoin [localDocsPath M, ascii ''docs''])
               = Inr fsd))"
  using searchFacts_returns [of M fs q opts] initializeLocalDocs_succeeds [of M fs fsd]
  by (simp add: processFile_unreadable contextFile_unreadable entryFile_unreadable
      searchFactsInternal_root_fails findInsightFiles_listing_fails getProjectContext_root_fails
      recordInsight_write_fails recordInsight_write_succeeds initializeLocalDocs_fails)

text \<open>
  Against claim C4 as stated: on a storage whose existence check and listing throw,
  \<open>searchFacts\<close> returns the empty list instead of raising.
\<close>

theorem storage_failures_counterexample:
  "exists (fileManager failingManager) () (localDocsPath failingManager)
     = Inl (Error (ascii ''EIO''))
   \<and> listFiles (fileManager failingManager) ()
       (pathJoin [localDocsPath failingManager, ascii ''solutions'']) = Inl (Error (ascii ''EIO''))
   \<and> searchFacts failingManager () (ascii ''implement login'') noOptions = Inr []"
  by code_simp

theorem storage_failures_witness:
  "searchFactsInternal failingManager () (ascii ''implement login'') noOptions = Inr []
   \<and> findInsightFiles failingManager () = []
   \<and> processFile failingManager () (ascii ''implement login'') defaultCategories (5 / 10) []
       (ascii ''/p/.bkproj/facts/solutions/a.md'') = []
   \<and> entryFile exampleAmbient failingManager () (ascii ''/p/.bkproj/facts/solutions'') []
       (ascii ''a.md'') = []
   \<and> getProjectContext exampleAmbient failingManager ()
       = Inl (Error (ascii ''Failed to get project context: EIO''))
   \<and> recordInsight exampleIndexText exampleAmbient failingManager () loginInsight
       = Inl (Error (ascii ''Failed to record insight: EIO''))
   \<and> initializeLocalDocs failingManager ()
       = Inl (Error (ascii ''Failed to initialize local docs: EIO''))
   \<and> (\<exists>fs2. recordInsight exampleIndexText exampleAmbient exampleManager emptyFs loginInsight
          = Inr fs2)"
proof -
  let ?F = failingManager and ?e = "Error (ascii ''EIO'')"
  let ?q = "ascii ''implement login''" and ?p = "ascii ''/p/.bkproj/facts/solutions/a.md''"
  have ex: "exists (fileManager ?F) () (localDocsPath ?F) = Inl ?e"
    by (simp add: failingManager_def newFactsManager_def failingFileManager_def Let_def)
  have ls: "listIfExists (fileManager ?F) () (pathJoin [localDocsPath ?F, ascii ''solutions''])
              = Inl ?e"
    by (simp add: failingManager_def newFactsManager_def failingFileManager_def Let_def
        listIfExists_def await_def)
  have rd: "readFile (fileManager ?F) () ?p = Inl ?e"
    by (simp add: failingManager_def newFactsManager_def failingFileManager_def Let_def)
  have rd': "readFile (fileManager ?F) ()
               (pathJoin [ascii ''/p/.bkproj/facts/solutions'', ascii ''a.md'']) = Inl ?e"
    by (simp add: failingManager_def newFactsManager_def failingFileManager_def Let_def)
  have wr: "writeFile (fileManager ?F) ()
              (pathJoin [localDocsPath ?F, ascii ''solutions'', generateInsightFilename loginInsight])
              (formatInsightContent exampleAmbient loginInsight) = Inl ?e"
    by (simp add: failingManager_def newFactsManager_def failingFileManager_def Let_def)
  have mk: "createDirectory (fileManager ?F) () (localDocsPath ?F) = Inl ?e"
    by (simp add: failingManager_def newFactsManager_def failingFileManager_def Let_def)
  obtain fs1 where ok: "writeFile (fileManager exampleManager) emptyFs
              (pathJoin [localDocsPath exampleManager, ascii ''solutions'',
                         generateInsightFilename loginInsight])
              (formatInsightContent exampleAmbient loginInsight) = Inr fs1"
    by (simp add: exampleManager_def newFactsManager_def memoryFileManager_def Let_def
        mem_writeFile_def)
  note T = storage_failures [where M = ?F and fs = "()" and e = ?e and q = ?q
      and opts = noOptions and p = ?p and cats = defaultCategories and r = "5 / 10"
      and docs = "[]" and st = "([], epoch)" and dir = "ascii ''/p/.bkproj/facts/solutions''"
      and name = "ascii ''a.md''" and A = exampleAmbient and entries = "[]"
      and i = loginInsight and gen = exampleIndexText]
  note U = storage_failures [where M = exampleManager and fs = emptyFs and fs' = fs1
      and A = exampleAmbient and i = loginInsight and gen = exampleIndexText]
  have a1: "searchFactsInternal ?F () ?q noOptions = Inr []"
    using T ex by blast
  have a2: "findInsightFiles ?F () = []"
    using T ls by blast
  have a3: "processFile ?F () ?q defaultCategories (5 / 10) [] ?p = []"
    using T rd by blast
  have a4: "entryFile exampleAmbient ?F () (ascii ''/p/.bkproj/facts/solutions'') []
              (ascii ''a.md'') = []"
    using T rd' by blast
  have a5: "getProjectContext exampleAmbient ?F ()
       = Inl (Error (ascii ''Failed to get project context: '' @ errorMessage ?e))"
    using T ex by blast
  have a6: "recordInsight exampleIndexText exampleAmbient ?F () loginInsight
       = Inl (Error (ascii ''Failed to record insight: '' @ errorMessage ?e))"
    using T wr by blast
  have a7: "initializeLocalDocs ?F ()
       = Inl (Error (ascii ''Failed to initialize local docs: '' @ errorMessage ?e))"
    using T mk by blast
  have a8: "\<exists>fs2. recordInsight exampleIndexText exampleAmbient exampleManager emptyFs loginInsight
          = Inr fs2"
    using U ok by blast
  show ?thesis
    using a1 a2 a3 a4 a5 a6 a7 a8 by (simp add: errorMessage_def ascii_def)
qed

section \<open>The document written by recordInsight\<close>

lemma pathJoin3: "pathJoin [a, b, c] = a @ ascii ''/'' @ b @ ascii ''/'' @ c"
  by (simp add: pathJoin_def)

lemma pathJoin2: "pathJoin [a, b] = a @ ascii ''/'' @ b"
  by (simp add: pathJoin_def)

lemma take_filter_prefix: "\<exists>m. take n (filter P xs) = filter P (take m xs)"
proof (induction xs arbitrary: n)
  case Nil
  then show ?case by simp
next
  case (Cons x xs)
  show ?case
  proof (cases n)
    case 0
    then show ?thesis by (intro exI [of _ 0]) simp
  next
    case (Suc k)
    obtain m where m: "take k (filter P xs) = filter P (take m xs)"
      using Cons.IH [of k] by blast
    obtain m' where m': "take (Suc k) (filter P xs) = filter P (take m' xs)"
      using Cons.IH [of "Suc k"] by blast
    show ?thesis
    proof (cases "P x")
      case True
      then show ?thesis using Suc m by (intro exI [of _ "Suc m"]) simp
    next
      case False
      then show ?thesis using Suc m' by (intro exI [of _ "Suc m'"]) simp
    qed
  qed
qed

lemma updateKnowledge_effect:
  "updateKnowledge gen A M fs' = fs'
   \<or> (\<exists>text. writeFile (fileManager M) fs' (localDocsPath M @ ascii ''/KNOWLEDGE.md'') text
         = Inr (updateKnowledge gen A M fs'))"
proof -
  have "pathJoin [localDocsPath M, ascii ''KNOWLEDGE.md'']
        = localDocsPath M @ ascii ''/KNOWLEDGE.md''"
    by (simp add: pathJoin_def ascii_def)
  then show ?thesis
    by (auto simp: updateKnowledge_def await_def Let_def split: sum.split)
qed

lemma recordInsight_unfold:
  "recordInsight gen A M fs i =
     (case writeFile (fileManager M) fs
             (localDocsPath M @ ascii ''/solutions/'' @ generateInsightFilename i)
             (formatInsightContent A i) of
        Inl e \<Rightarrow> Inl (Error (ascii ''Failed to record insight: '' @ errorMessage e))
      | Inr fs1 \<Rightarrow> Inr (updateKnowledge gen A M fs1))"
proof -
  have "pathJoin [localDocsPath M, ascii ''solutions'', generateInsightFilename i]
        = localDocsPath M @ ascii ''/solutions/'' @ generateInsightFilename i"
    by (simp add: pathJoin3 ascii_def)
  then show ?thesis
    by (simp add: recordInsight_def tryCatch_def await_def Let_def split: sum.split)
qed

text \<open>
  Claim C8. The file name is a part made from the task, an underscore, a part made from
  the solution, and the extension \<open>.md\<close>; each part is the first 30 code units of the
  text with everything but letters, digits and the ideographs U+4E00 to U+9FA5 removed,
  which is the sanitized form of a prefix of the text. \<open>recordInsight\<close> writes the
  formatted insight to that name under \<open>solutions\<close>, fails if this write fails, and
  otherwise succeeds with a storage that is the one after this write or the one after
  one more write, to \<open>KNOWLEDGE.md\<close> in the root: no other document is written.
\<close>

theorem recordInsight_writes_one_document:
  "\<exists>taskPart solutionPart.
     generateInsightFilename i = taskPart @ ascii ''_'' @ solutionPart @ ascii ''.md''
     \<and> taskPart = take 30 (filter keptInFilename (task i))
     \<and> solutionPart = take 30 (filter keptInFilename (solution i))
     \<and> (\<exists>m. taskPart = filter keptInFilename (take m (task i)))
     \<and> (\<exists>m. solutionPart = filter keptInFilename (take m (solution i)))
     \<and> length taskPart \<le> 30 \<and> length solutionPart \<le> 30
     \<and> list_all keptInFilename taskPart \<and> list_all keptInFilename solutionPart
     \<and> recordInsight gen A M fs i =
         (case writeFile (fileManager M) fs
                 (localDocsPath M @ ascii ''/solutions/'' @ generateInsightFilename i)
                 (formatInsightContent A i) of
            Inl e \<Rightarrow> Inl (Error (ascii ''Failed to record insight: '' @ errorMessage e))
          | Inr fs1 \<Rightarrow> Inr (updateKnowledge gen A M fs1))
     \<and> (\<forall>fs'. updateKnowledge gen A M fs' = fs'
           \<or> (\<exists>text. writeFile (fileManager M) fs' (localDocsPath M @ ascii ''/KNOWLEDGE.md'') text
                 = Inr (updateKnowledge gen A M fs')))"
proof -
  let ?t = "take 30 (filter keptInFilename (task i))"
  let ?s = "take 30 (filter keptInFilename (solution i))"
  have name: "generateInsightFilename i = ?t @ ascii ''_'' @ ?s @ ascii ''.md''"
    by (simp add: generateInsightFilename_def Let_def)
  have kt: "list_all keptInFilename ?t"
    by (auto simp: list_all_iff dest: in_set_takeD)
  have ks: "list_all keptInFilename ?s"
    by (auto simp: list_all_iff dest: in_set_takeD)
  show ?thesis
    using name kt ks take_filter_prefix [of 30 keptInFilename "task i"]
      take_filter_prefix [of 30 keptInFilename "solution i"]
      recordInsight_unfold [of gen A M fs i] updateKnowledge_effect [of gen A M]
    by (intro exI [of _ ?t] exI [of _ ?s]) simp
qed

theorem recordInsight_writes_one_document_witness:
  "generateInsightFilename loginInsight = ascii ''implementlogin_useJWT.md''
   \<and> map_sum id (\<lambda>fs. map fst (mem_files fs))
       (recordInsight exampleIndexText exampleAmbient exampleManager emptyFs loginInsight)
     = Inr [ascii ''/p/.bkproj/facts/KNOWLEDGE.md'',
            ascii ''/p/.bkproj/facts/solutions/implementlogin_useJWT.md'']"
proof -
  obtain taskPart solutionPart where
    n: "generateInsightFilename loginInsight = taskPart @ ascii ''_'' @ solutionPart @ ascii ''.md''"
    and t: "taskPart = take 30 (filter keptInFilename (task loginInsight))"
    and s: "solutionPart = take 30 (filter keptInFilename (solution loginInsight))"
    using recordInsight_writes_one_document
      [where i = loginInsight and gen = exampleIndexText and A = exampleAmbient
         and M = exampleManager and fs = emptyFs]
    by blast
  have t': "take 30 (filter keptInFilename (task loginInsight)) = ascii ''implementlogin''"
    by code_simp
  have s': "take 30 (filter keptInFilename (solution loginInsight)) = ascii ''useJWT''"
    by code_simp
  have name: "generateInsightFilename loginInsight = ascii ''implementlogin_useJWT.md''"
    using n t s t' s' by (simp add: ascii_def)
  have eff: "map_sum id (\<lambda>fs. map fst (mem_files fs))
       (recordInsight exampleIndexText exampleAmbient exampleManager emptyFs loginInsight)
     = Inr [ascii ''/p/.bkproj/facts/KNOWLEDGE.md'',
            ascii ''/p/.bkproj/facts/solutions/implementlogin_useJWT.md'']"
    by code_simp
  show ?thesis
    using name eff by simp
qed

section \<open>Envelopes of the tools\<close>











lemma failureEnvelope_fields:
  "success (failureEnvelope what err t) = False"
  "data (failureEnvelope what err t) = None"
  "message (failureEnvelope what err t) = what @ errorMessage err"
  "timestamp (failureEnvelope what err t) = t"
  by (simp_all add: failureEnvelope_def)




section \<open>Words of a text that contains the query\<close>












section \<open>The header of a recorded insight\<close>












section \<open>Searching for a recorded insight\<close>








end
